theory Spec2Isabelle
  imports Main "HOL-Library.Word"
begin

section \<open>Go values\<close>

text \<open>
  The development embeds the reconciliation core of the platform: package \<open>ecs\<close>
  (\<open>scheduler/ecs/ecs.go\<close>) and the load balancer manager of package \<open>lb\<close>.

  Conventions of the embedding.
  \<^item> A Go struct is a record; its fields keep their names behind a short prefix that
    tells the structs apart (\<open>p_Type\<close> is \<open>Process.Type\<close>, \<open>cd_Cpu\<close> is
    \<open>ContainerDefinition.Cpu\<close>).
  \<^item> \<open>uint\<close>, at its width on a 64-bit platform, and \<open>int64\<close> are 64-bit words; a
    conversion between them keeps the bits.
  \<^item> In the task definitions of the container backend, a pointer field and an element of
    a slice of pointers are an \<open>option\<close>, \<open>None\<close> for \<open>nil\<close>; to dereference \<open>None\<close> is a
    panic, and the panic is a result of the function.
  \<^item> In the requests and responses of the load balancing backend, a pointer field is an
    \<open>option\<close> unless the code dereferences it unconditionally: then it is the value
    pointed to, which the response format provides; a slice of pointers is the list of the
    values pointed to.
  \<^item> A Go \<open>map\<close> is a partial function. The order in which \<open>range\<close> visits the keys of a
    map is chosen by the runtime; every function that ranges over a map takes that choice
    as its first argument \<open>rng\<close>, a function from the map to the key sequence visited.
  \<^item> A value of type \<open>error\<close> is an \<open>error option\<close>, \<open>None\<close> for \<open>nil\<close>.
  \<^item> A remote backend is a record of operations over a state \<open>'s\<close> that the embedding
    never inspects; each operation returns its response and the next state.
\<close>

type_synonym uint = "64 word"
type_synonym int64 = "64 word"

text \<open>
  \<open>AwsError code message\<close> is a value that implements \<open>awserr.Error\<close>;
  \<open>ErrorString\<close> is what \<open>errors.New\<close> and \<open>fmt.Errorf\<close> build.
\<close>

datatype error = AwsError string string | ErrorString string

text \<open>
  A function that can panic ends in one of three ways: it returns its value, it returns an
  error (\<open>Failed\<close>), or it panics (\<open>Panicked\<close>).
\<close>

datatype go_panic = NilPointerDereference

datatype failure = Failed error | Panicked go_panic

text \<open>\<open>range\<close> over a map visits every key once.\<close>

definition visits_keys :: "(('k \<rightharpoonup> 'v) \<Rightarrow> 'k list) \<Rightarrow> ('k \<rightharpoonup> 'v) \<Rightarrow> bool" where
  "visits_keys rng m = (set (rng m) = dom m \<and> distinct (rng m))"

section \<open>Package scheduler: App and Process\<close>

record PortMap =
  port_Host :: "int64 option"
  port_Container :: "int64 option"

text \<open>\<open>p_Image\<close> is the image reference as \<open>Image.String()\<close> renders it.\<close>

record Process =
  p_Type :: string
  p_Command :: string
  p_Env :: "string \<rightharpoonup> string"
  p_Image :: string
  p_CPUShares :: uint
  p_MemoryLimit :: uint
  p_Instances :: uint
  p_Ports :: "PortMap list"
  p_LoadBalancer :: string

record App =
  app_ID :: string
  app_Processes :: "Process list"

section \<open>Reconciliation: the process types to remove\<close>

text \<open>\<open>processTypes\<close>: the set of types of a process list, as \<open>map[string]struct{}\<close>.\<close>

fun processTypes_loop :: "(string \<rightharpoonup> unit) \<Rightarrow> Process list \<Rightarrow> (string \<rightharpoonup> unit)" where
  "processTypes_loop m [] = m"
| "processTypes_loop m (p # processes) = processTypes_loop (m(p_Type p \<mapsto> ())) processes"

definition processTypes :: "Process list \<Rightarrow> (string \<rightharpoonup> unit)" where
  "processTypes processes = processTypes_loop Map.empty processes"

text \<open>
  \<open>diffProcessTypes\<close>: ranges over the old types and keeps those that the new map does
  not hold.
\<close>

definition diffProcessTypes ::
  "((string \<rightharpoonup> unit) \<Rightarrow> string list) \<Rightarrow> Process list \<Rightarrow> Process list \<Rightarrow> string list" where
  "diffProcessTypes rng old new =
     (let om = processTypes old;
          nm = processTypes new
      in filter (\<lambda>t. nm t = None) (rng om))"

lemma dom_processTypes_loop:
  "dom (processTypes_loop m ps) = dom m \<union> p_Type ` set ps"
  by (induction ps arbitrary: m) auto

lemma dom_processTypes: "dom (processTypes ps) = p_Type ` set ps"
  by (simp add: processTypes_def dom_processTypes_loop)

lemma set_diffProcessTypes:
  assumes "visits_keys rng (processTypes old)"
  shows "set (diffProcessTypes rng old new) = p_Type ` set old - p_Type ` set new"
proof -
  have keys: "set (rng (processTypes old)) = p_Type ` set old"
    using assms by (simp add: visits_keys_def dom_processTypes)
  have absent: "\<And>t. (processTypes new t = None) = (t \<notin> p_Type ` set new)"
    by (metis dom_processTypes domIff)
  show ?thesis
    unfolding diffProcessTypes_def Let_def set_filter keys absent by blast
qed

text \<open>
  Claim C1. Whatever order the runtime ranges over the old types in, the removal list
  of \<open>diffProcessTypes\<close> holds exactly the types that occur in \<open>old\<close> and not in
  \<open>new\<close>, each once.
\<close>

theorem diffProcessTypes_set_difference:
  assumes "visits_keys rng (processTypes old)"
  shows "set (diffProcessTypes rng old new) = p_Type ` set old - p_Type ` set new
         \<and> distinct (diffProcessTypes rng old new)"
proof -
  have "distinct (diffProcessTypes rng old new)"
    using assms by (simp add: diffProcessTypes_def visits_keys_def)
  with set_diffProcessTypes [OF assms] show ?thesis by simp
qed

text \<open>A process that declares its type and nothing else.\<close>

definition process_of_type :: "string \<Rightarrow> Process" where
  "process_of_type t =
     \<lparr>p_Type = t, p_Command = [], p_Env = Map.empty, p_Image = [], p_CPUShares = 0,
      p_MemoryLimit = 0, p_Instances = 0, p_Ports = [], p_LoadBalancer = []\<rparr>"

theorem diffProcessTypes_web_worker_clock:
  "visits_keys (\<lambda>_. [''web'', ''worker'', ''clock''])
     (processTypes [process_of_type ''web'', process_of_type ''worker'', process_of_type ''clock''])
   \<and> set (diffProcessTypes (\<lambda>_. [''web'', ''worker'', ''clock''])
          [process_of_type ''web'', process_of_type ''worker'', process_of_type ''clock'']
          [process_of_type ''web'', process_of_type ''worker'']) = {''clock''}
   \<and> diffProcessTypes (\<lambda>_. [''web'', ''worker'', ''clock''])
          [process_of_type ''web'', process_of_type ''worker'', process_of_type ''clock'']
          [process_of_type ''web'', process_of_type ''worker''] = [''clock'']"
  using diffProcessTypes_set_difference
    [of "\<lambda>_. [''web'', ''worker'', ''clock'']"
        "[process_of_type ''web'', process_of_type ''worker'', process_of_type ''clock'']"
        "[process_of_type ''web'', process_of_type ''worker'']"]
  by (simp add: visits_keys_def processTypes_def diffProcessTypes_def process_of_type_def
      insert_commute)

section \<open>Submitting an app\<close>

text \<open>
  The process manager that the scheduler embeds is an interface. It is a record of its
  operations on the state \<open>'s\<close> of whatever stands behind it; \<open>Processes\<close> returns a
  list and an error, as the Go method does.
\<close>

record 's ProcessManager =
  CreateProcess :: "App \<Rightarrow> Process \<Rightarrow> 's \<Rightarrow> error option \<times> 's"
  RemoveProcess :: "string \<Rightarrow> string \<Rightarrow> 's \<Rightarrow> error option \<times> 's"
  Processes :: "string \<Rightarrow> 's \<Rightarrow> (Process list \<times> error option) \<times> 's"

fun Submit_create_loop ::
  "'s ProcessManager \<Rightarrow> App \<Rightarrow> Process list \<Rightarrow> 's \<Rightarrow> error option \<times> 's" where
  "Submit_create_loop m app [] s = (None, s)"
| "Submit_create_loop m app (p # ps) s =
     (case CreateProcess m app p s of
        (Some err, s') \<Rightarrow> (Some err, s')
      | (None, s') \<Rightarrow> Submit_create_loop m app ps s')"

fun Submit_remove_loop ::
  "'s ProcessManager \<Rightarrow> string \<Rightarrow> string list \<Rightarrow> 's \<Rightarrow> error option \<times> 's" where
  "Submit_remove_loop m appID [] s = (None, s)"
| "Submit_remove_loop m appID (p # toRemove) s =
     (case RemoveProcess m appID p s of
        (Some err, s') \<Rightarrow> (Some err, s')
      | (None, s') \<Rightarrow> Submit_remove_loop m appID toRemove s')"

definition Scheduler_Submit ::
  "((string \<rightharpoonup> unit) \<Rightarrow> string list) \<Rightarrow> 's ProcessManager \<Rightarrow> App \<Rightarrow> 's \<Rightarrow> error option \<times> 's" where
  "Scheduler_Submit rng m app s =
     (case Processes m (app_ID app) s of
        ((processes, Some err), s1) \<Rightarrow> (Some err, s1)
      | ((processes, None), s1) \<Rightarrow>
          (case Submit_create_loop m app (app_Processes app) s1 of
             (Some err, s2) \<Rightarrow> (Some err, s2)
           | (None, s2) \<Rightarrow>
               let toRemove = diffProcessTypes rng processes (app_Processes app)
               in Submit_remove_loop m (app_ID app) toRemove s2))"

subsection \<open>The calls that a submission makes\<close>

text \<open>
  A process manager that answers as the one it wraps and appends every call, with its
  answer, to a list kept beside the state.
\<close>

datatype pm_call =
    ProcessesCall string "Process list" "error option"
  | CreateProcessCall App Process "error option"
  | RemoveProcessCall string string "error option"

definition recording_ProcessManager ::
  "'s ProcessManager \<Rightarrow> (pm_call list \<times> 's) ProcessManager" where
  "recording_ProcessManager m =
     \<lparr>CreateProcess = (\<lambda>app p (calls, s).
        case CreateProcess m app p s of
          (err, s') \<Rightarrow> (err, (calls @ [CreateProcessCall app p err], s'))),
      RemoveProcess = (\<lambda>appID t (calls, s).
        case RemoveProcess m appID t s of
          (err, s') \<Rightarrow> (err, (calls @ [RemoveProcessCall appID t err], s'))),
      Processes = (\<lambda>appID (calls, s).
        case Processes m appID s of
          ((ps, err), s') \<Rightarrow> ((ps, err), (calls @ [ProcessesCall appID ps err], s')))\<rparr>"

lemma recording_ProcessManager_simps:
  "CreateProcess (recording_ProcessManager m) app p (calls, s) =
     (case CreateProcess m app p s of
        (err, s') \<Rightarrow> (err, (calls @ [CreateProcessCall app p err], s')))"
  "RemoveProcess (recording_ProcessManager m) appID t (calls, s) =
     (case RemoveProcess m appID t s of
        (err, s') \<Rightarrow> (err, (calls @ [RemoveProcessCall appID t err], s')))"
  "Processes (recording_ProcessManager m) appID (calls, s) =
     (case Processes m appID s of
        ((ps, err), s') \<Rightarrow> ((ps, err), (calls @ [ProcessesCall appID ps err], s')))"
  by (simp_all add: recording_ProcessManager_def)

text \<open>The calls of a loop whose every call succeeded: creations, and removals.\<close>

definition created :: "App \<Rightarrow> Process list \<Rightarrow> pm_call list" where
  "created app ps = map (\<lambda>p. CreateProcessCall app p None) ps"

definition removed :: "string \<Rightarrow> string list \<Rightarrow> pm_call list" where
  "removed appID ts = map (\<lambda>t. RemoveProcessCall appID t None) ts"

lemma Submit_create_loop_calls:
  "(\<exists>s'. Submit_create_loop (recording_ProcessManager m) app ps (calls, s) =
           (None, (calls @ created app ps, s')))
   \<or> (\<exists>k err s'. k < length ps
        \<and> Submit_create_loop (recording_ProcessManager m) app ps (calls, s) =
           (Some err, (calls @ created app (take k ps) @ [CreateProcessCall app (ps ! k) (Some err)], s')))"
proof (induction ps arbitrary: calls s)
  case Nil
  then show ?case by (simp add: created_def)
next
  case (Cons p ps)
  obtain err s1 where c: "CreateProcess m app p s = (err, s1)"
    by (cases "CreateProcess m app p s")
  show ?case
  proof (cases err)
    case (Some e)
    have "Submit_create_loop (recording_ProcessManager m) app (p # ps) (calls, s) =
        (Some e, (calls @ created app (take 0 (p # ps)) @ [CreateProcessCall app ((p # ps) ! 0) (Some e)], s1))"
      using c Some by (simp add: recording_ProcessManager_simps created_def)
    then show ?thesis by (intro disjI2 exI [of _ 0]) auto
  next
    case None
    let ?calls = "calls @ [CreateProcessCall app p None]"
    have step: "Submit_create_loop (recording_ProcessManager m) app (p # ps) (calls, s) =
        Submit_create_loop (recording_ProcessManager m) app ps (?calls, s1)"
      using c None by (simp add: recording_ProcessManager_simps)
    from Cons.IH [of ?calls s1] show ?thesis
    proof
      assume "\<exists>s'. Submit_create_loop (recording_ProcessManager m) app ps (?calls, s1) =
           (None, (?calls @ created app ps, s'))"
      then show ?thesis unfolding step by (auto simp: created_def)
    next
      assume "\<exists>k err s'. k < length ps
        \<and> Submit_create_loop (recording_ProcessManager m) app ps (?calls, s1) =
           (Some err, (?calls @ created app (take k ps) @ [CreateProcessCall app (ps ! k) (Some err)], s'))"
      then obtain k e s' where k: "k < length ps"
        and r: "Submit_create_loop (recording_ProcessManager m) app ps (?calls, s1) =
           (Some e, (?calls @ created app (take k ps) @ [CreateProcessCall app (ps ! k) (Some e)], s'))"
        by blast
      have "Submit_create_loop (recording_ProcessManager m) app (p # ps) (calls, s) =
           (Some e, (calls @ created app (take (Suc k) (p # ps))
              @ [CreateProcessCall app ((p # ps) ! Suc k) (Some e)], s'))"
        unfolding step r by (simp add: created_def)
      with k show ?thesis by (intro disjI2 exI [of _ "Suc k"]) auto
    qed
  qed
qed

lemma Submit_remove_loop_calls:
  "(\<exists>s'. Submit_remove_loop (recording_ProcessManager m) appID ts (calls, s) =
           (None, (calls @ removed appID ts, s')))
   \<or> (\<exists>k err s'. k < length ts
        \<and> Submit_remove_loop (recording_ProcessManager m) appID ts (calls, s) =
           (Some err, (calls @ removed appID (take k ts) @ [RemoveProcessCall appID (ts ! k) (Some err)], s')))"
proof (induction ts arbitrary: calls s)
  case Nil
  then show ?case by (simp add: removed_def)
next
  case (Cons t ts)
  obtain err s1 where c: "RemoveProcess m appID t s = (err, s1)"
    by (cases "RemoveProcess m appID t s")
  show ?case
  proof (cases err)
    case (Some e)
    have "Submit_remove_loop (recording_ProcessManager m) appID (t # ts) (calls, s) =
        (Some e, (calls @ removed appID (take 0 (t # ts)) @ [RemoveProcessCall appID ((t # ts) ! 0) (Some e)], s1))"
      using c Some by (simp add: recording_ProcessManager_simps removed_def)
    then show ?thesis by (intro disjI2 exI [of _ 0]) auto
  next
    case None
    let ?calls = "calls @ [RemoveProcessCall appID t None]"
    have step: "Submit_remove_loop (recording_ProcessManager m) appID (t # ts) (calls, s) =
        Submit_remove_loop (recording_ProcessManager m) appID ts (?calls, s1)"
      using c None by (simp add: recording_ProcessManager_simps)
    from Cons.IH [of ?calls s1] show ?thesis
    proof
      assume "\<exists>s'. Submit_remove_loop (recording_ProcessManager m) appID ts (?calls, s1) =
           (None, (?calls @ removed appID ts, s'))"
      then show ?thesis unfolding step by (auto simp: removed_def)
    next
      assume "\<exists>k err s'. k < length ts
        \<and> Submit_remove_loop (recording_ProcessManager m) appID ts (?calls, s1) =
           (Some err, (?calls @ removed appID (take k ts) @ [RemoveProcessCall appID (ts ! k) (Some err)], s'))"
      then obtain k e s' where k: "k < length ts"
        and r: "Submit_remove_loop (recording_ProcessManager m) appID ts (?calls, s1) =
           (Some e, (?calls @ removed appID (take k ts) @ [RemoveProcessCall appID (ts ! k) (Some e)], s'))"
        by blast
      have "Submit_remove_loop (recording_ProcessManager m) appID (t # ts) (calls, s) =
           (Some e, (calls @ removed appID (take (Suc k) (t # ts))
              @ [RemoveProcessCall appID ((t # ts) ! Suc k) (Some e)], s'))"
        unfolding step r by (simp add: removed_def)
      with k show ?thesis by (intro disjI2 exI [of _ "Suc k"]) auto
    qed
  qed
qed

text \<open>
  Claim C2. The calls of \<open>Submit\<close> to the process manager are, in this order: the
  listing of the app's processes; a \<open>CreateProcess\<close> for the declared processes in the
  order of the declaration; a \<open>RemoveProcess\<close> for the types that
  \<open>diffProcessTypes\<close> gives for the listed and the declared processes, which are the
  listed types that are not declared. The first call that fails is the last call made, and
  its error is what \<open>Submit\<close> returns: after a creation that fails there is no further
  creation, no removal and nothing that takes back the creations before it.
\<close>

theorem Submit_order_of_calls:
  "\<exists>processes listing res calls s'.
     Scheduler_Submit rng (recording_ProcessManager m) app ([], s) =
       (res, (ProcessesCall (app_ID app) processes listing # calls, s'))
     \<and> ((\<exists>err. listing = Some err \<and> res = Some err \<and> calls = [])
        \<or> (\<exists>k err. listing = None \<and> k < length (app_Processes app) \<and> res = Some err
              \<and> calls = created app (take k (app_Processes app))
                  @ [CreateProcessCall app (app_Processes app ! k) (Some err)])
        \<or> (\<exists>k err. listing = None
              \<and> k < length (diffProcessTypes rng processes (app_Processes app))
              \<and> res = Some err
              \<and> calls = created app (app_Processes app)
                  @ removed (app_ID app)
                      (take k (diffProcessTypes rng processes (app_Processes app)))
                  @ [RemoveProcessCall (app_ID app)
                       (diffProcessTypes rng processes (app_Processes app) ! k) (Some err)])
        \<or> (listing = None \<and> res = None
              \<and> calls = created app (app_Processes app)
                  @ removed (app_ID app) (diffProcessTypes rng processes (app_Processes app))))
     \<and> (visits_keys rng (processTypes processes) \<longrightarrow>
          set (diffProcessTypes rng processes (app_Processes app)) =
            p_Type ` set processes - p_Type ` set (app_Processes app))"
proof -
  let ?m = "recording_ProcessManager m"
  let ?P = "app_Processes app"
  obtain processes listing s1 where l: "Processes m (app_ID app) s = ((processes, listing), s1)"
    by (cases "Processes m (app_ID app) s") auto
  let ?first = "ProcessesCall (app_ID app) processes listing"
  let ?R = "diffProcessTypes rng processes ?P"
  let ?shape = "\<lambda>res calls.
       (\<exists>err. listing = Some err \<and> res = Some err \<and> calls = [])
        \<or> (\<exists>k err. listing = None \<and> k < length ?P \<and> res = Some err
              \<and> calls = created app (take k ?P) @ [CreateProcessCall app (?P ! k) (Some err)])
        \<or> (\<exists>k err. listing = None \<and> k < length ?R \<and> res = Some err
              \<and> calls = created app ?P @ removed (app_ID app) (take k ?R)
                  @ [RemoveProcessCall (app_ID app) (?R ! k) (Some err)])
        \<or> (listing = None \<and> res = None
              \<and> calls = created app ?P @ removed (app_ID app) ?R)"
  have l': "Processes ?m (app_ID app) ([], s) = ((processes, listing), ([?first], s1))"
    using l by (simp add: recording_ProcessManager_simps)
  have diff: "visits_keys rng (processTypes processes) \<longrightarrow>
      set ?R = p_Type ` set processes - p_Type ` set ?P"
    using set_diffProcessTypes by (rule impI)
  have "\<exists>res calls s'. Scheduler_Submit rng ?m app ([], s) = (res, (?first # calls, s'))
      \<and> ?shape res calls"
  proof (cases listing)
    case (Some err)
    then have "Scheduler_Submit rng ?m app ([], s) = (Some err, (?first # [], s1))"
      using l' by (simp add: Scheduler_Submit_def)
    moreover have "?shape (Some err) []" using Some by simp
    ultimately show ?thesis by (intro exI conjI)
  next
    case None
    from Submit_create_loop_calls [of m app ?P "[?first]" s1] show ?thesis
    proof
      assume "\<exists>k err s'. k < length ?P
        \<and> Submit_create_loop ?m app ?P ([?first], s1) =
           (Some err, ([?first] @ created app (take k ?P)
              @ [CreateProcessCall app (?P ! k) (Some err)], s'))"
      then obtain k err s' where k: "k < length ?P"
        and c: "Submit_create_loop ?m app ?P ([?first], s1) =
           (Some err, ([?first] @ created app (take k ?P)
              @ [CreateProcessCall app (?P ! k) (Some err)], s'))"
        by blast
      have "Scheduler_Submit rng ?m app ([], s) =
          (Some err, (?first # (created app (take k ?P)
              @ [CreateProcessCall app (?P ! k) (Some err)]), s'))"
        using l' None c by (simp add: Scheduler_Submit_def)
      moreover have "?shape (Some err)
          (created app (take k ?P) @ [CreateProcessCall app (?P ! k) (Some err)])"
        using None k by blast
      ultimately show ?thesis by (intro exI conjI)
    next
      assume "\<exists>s'. Submit_create_loop ?m app ?P ([?first], s1) =
           (None, ([?first] @ created app ?P, s'))"
      then obtain s2 where c: "Submit_create_loop ?m app ?P ([?first], s1) =
           (None, ([?first] @ created app ?P, s2))"
        by blast
      have run: "Scheduler_Submit rng ?m app ([], s) =
          Submit_remove_loop ?m (app_ID app) ?R ([?first] @ created app ?P, s2)"
        using l' None c by (simp add: Scheduler_Submit_def)
      from Submit_remove_loop_calls [of m "app_ID app" ?R "[?first] @ created app ?P" s2]
      show ?thesis
      proof
        assume "\<exists>s'. Submit_remove_loop ?m (app_ID app) ?R ([?first] @ created app ?P, s2) =
           (None, (([?first] @ created app ?P) @ removed (app_ID app) ?R, s'))"
        then obtain s' where "Scheduler_Submit rng ?m app ([], s) =
            (None, (?first # (created app ?P @ removed (app_ID app) ?R), s'))"
          unfolding run by auto
        moreover have "?shape None (created app ?P @ removed (app_ID app) ?R)"
          using None by simp
        ultimately show ?thesis by (intro exI conjI)
      next
        assume "\<exists>k err s'. k < length ?R
          \<and> Submit_remove_loop ?m (app_ID app) ?R ([?first] @ created app ?P, s2) =
             (Some err, (([?first] @ created app ?P) @ removed (app_ID app) (take k ?R)
                @ [RemoveProcessCall (app_ID app) (?R ! k) (Some err)], s'))"
        then obtain k err s' where k: "k < length ?R"
          and "Scheduler_Submit rng ?m app ([], s) =
            (Some err, (?first # (created app ?P @ removed (app_ID app) (take k ?R)
                @ [RemoveProcessCall (app_ID app) (?R ! k) (Some err)]), s'))"
          unfolding run by auto
        moreover have "?shape (Some err) (created app ?P @ removed (app_ID app) (take k ?R)
                @ [RemoveProcessCall (app_ID app) (?R ! k) (Some err)])"
          using None k by blast
        ultimately show ?thesis by (intro exI conjI)
      qed
    qed
  qed
  then obtain res calls s' where
    "Scheduler_Submit rng ?m app ([], s) = (res, (?first # calls, s'))" "?shape res calls"
    by blast
  with diff show ?thesis by (intro exI conjI)
qed



text \<open>
  A process manager that keeps the provisioned types in a list and cannot create a
  process of type \<open>bad\<close>, and two submissions to it.
\<close>

definition memory_ProcessManager :: "string list ProcessManager" where
  "memory_ProcessManager =
     \<lparr>CreateProcess = (\<lambda>app p s.
        if p_Type p = ''bad'' then (Some (ErrorString ''cannot create bad''), s)
        else (None, if p_Type p \<in> set s then s else s @ [p_Type p])),
      RemoveProcess = (\<lambda>appID t s. (None, removeAll t s)),
      Processes = (\<lambda>appID s. ((map process_of_type s, None), s))\<rparr>"

definition acme :: "string list \<Rightarrow> App" where
  "acme types = \<lparr>app_ID = ''acme'', app_Processes = map process_of_type types\<rparr>"

theorem Submit_acme:
  "visits_keys (\<lambda>_. [''web'', ''worker'', ''clock''])
     (processTypes (map process_of_type [''web'', ''worker'', ''clock'']))
   \<and> Scheduler_Submit (\<lambda>_. [''web'', ''worker'', ''clock''])
        (recording_ProcessManager memory_ProcessManager) (acme [''web'', ''worker''])
        ([], [''web'', ''worker'', ''clock'']) =
       (None,
        ([ProcessesCall ''acme'' (map process_of_type [''web'', ''worker'', ''clock'']) None,
          CreateProcessCall (acme [''web'', ''worker'']) (process_of_type ''web'') None,
          CreateProcessCall (acme [''web'', ''worker'']) (process_of_type ''worker'') None,
          RemoveProcessCall ''acme'' ''clock'' None],
         [''web'', ''worker'']))
   \<and> set (diffProcessTypes (\<lambda>_. [''web'', ''worker'', ''clock''])
          (map process_of_type [''web'', ''worker'', ''clock''])
          (app_Processes (acme [''web'', ''worker'']))) =
       p_Type ` set (map process_of_type [''web'', ''worker'', ''clock''])
         - p_Type ` set (app_Processes (acme [''web'', ''worker'']))
   \<and> Scheduler_Submit (\<lambda>_. [''web'', ''worker'', ''clock''])
        (recording_ProcessManager memory_ProcessManager) (acme [''api'', ''bad'', ''worker''])
        ([], [''web'', ''worker'', ''clock'']) =
       (Some (ErrorString ''cannot create bad''),
        ([ProcessesCall ''acme'' (map process_of_type [''web'', ''worker'', ''clock'']) None,
          CreateProcessCall (acme [''api'', ''bad'', ''worker'']) (process_of_type ''api'') None,
          CreateProcessCall (acme [''api'', ''bad'', ''worker'']) (process_of_type ''bad'')
            (Some (ErrorString ''cannot create bad''))],
         [''web'', ''worker'', ''clock'', ''api'']))"
proof -
  let ?rng = "\<lambda>_ :: string \<rightharpoonup> unit. [''web'', ''worker'', ''clock'']"
  let ?old = "map process_of_type [''web'', ''worker'', ''clock'']"
  let ?m = "recording_ProcessManager memory_ProcessManager"
  have h: "visits_keys ?rng (processTypes ?old)"
    by (simp add: visits_keys_def processTypes_def process_of_type_def insert_commute)
  have r1: "Scheduler_Submit ?rng ?m (acme [''web'', ''worker''])
        ([], [''web'', ''worker'', ''clock'']) =
       (None,
        ([ProcessesCall ''acme'' ?old None,
          CreateProcessCall (acme [''web'', ''worker'']) (process_of_type ''web'') None,
          CreateProcessCall (acme [''web'', ''worker'']) (process_of_type ''worker'') None,
          RemoveProcessCall ''acme'' ''clock'' None],
         [''web'', ''worker'']))"
    by (simp add: Scheduler_Submit_def recording_ProcessManager_simps memory_ProcessManager_def
        acme_def diffProcessTypes_def processTypes_def process_of_type_def)
  have r2: "Scheduler_Submit ?rng ?m (acme [''api'', ''bad'', ''worker''])
        ([], [''web'', ''worker'', ''clock'']) =
       (Some (ErrorString ''cannot create bad''),
        ([ProcessesCall ''acme'' ?old None,
          CreateProcessCall (acme [''api'', ''bad'', ''worker'']) (process_of_type ''api'') None,
          CreateProcessCall (acme [''api'', ''bad'', ''worker'']) (process_of_type ''bad'')
            (Some (ErrorString ''cannot create bad''))],
         [''web'', ''worker'', ''clock'', ''api'']))"
    by (simp add: Scheduler_Submit_def recording_ProcessManager_simps memory_ProcessManager_def
        acme_def diffProcessTypes_def processTypes_def process_of_type_def)
  from Submit_order_of_calls
    [of ?rng memory_ProcessManager "acme [''web'', ''worker'']" "[''web'', ''worker'', ''clock'']"]
  obtain processes listing res calls s' where
    run: "Scheduler_Submit ?rng ?m (acme [''web'', ''worker''])
        ([], [''web'', ''worker'', ''clock'']) =
        (res, (ProcessesCall (app_ID (acme [''web'', ''worker''])) processes listing # calls, s'))"
    and diff: "visits_keys ?rng (processTypes processes) \<longrightarrow>
          set (diffProcessTypes ?rng processes (app_Processes (acme [''web'', ''worker'']))) =
            p_Type ` set processes - p_Type ` set (app_Processes (acme [''web'', ''worker'']))"
    by (elim exE conjE)
  from run have "processes = ?old" unfolding r1 by simp
  with diff have "visits_keys ?rng (processTypes ?old) \<longrightarrow>
          set (diffProcessTypes ?rng ?old (app_Processes (acme [''web'', ''worker'']))) =
            p_Type ` set ?old - p_Type ` set (app_Processes (acme [''web'', ''worker'']))"
    by simp
  from this h have d: "set (diffProcessTypes ?rng ?old (app_Processes (acme [''web'', ''worker'']))) =
            p_Type ` set ?old - p_Type ` set (app_Processes (acme [''web'', ''worker'']))"
    by (rule mp)
  from h r1 d r2 show ?thesis by (intro conjI)
qed

section \<open>Constructing a load-balanced scheduler\<close>

record 'aws Config =
  cfg_Cluster :: string
  cfg_ServiceRole :: string
  cfg_VPC :: string
  cfg_ZoneID :: string
  cfg_InternalSecurityGroupID :: string
  cfg_ExternalSecurityGroupID :: string
  cfg_InternalSubnetIDs :: "string list"
  cfg_ExternalSubnetIDs :: "string list"
  cfg_AWS :: 'aws

definition validateLoadBalancedConfig :: "'aws Config \<Rightarrow> error option" where
  "validateLoadBalancedConfig c =
     (let r = (\<lambda>n. Some (ErrorString (n @ '' is required'')))
      in if cfg_Cluster c = [] then r ''Cluster''
         else if cfg_ServiceRole c = [] then r ''ServiceRole''
         else if cfg_ZoneID c = [] then r ''ZoneID''
         else if cfg_InternalSecurityGroupID c = [] then r ''InternalSecurityGroupID''
         else if cfg_ExternalSecurityGroupID c = [] then r ''ExternalSecurityGroupID''
         else if length (cfg_InternalSubnetIDs c) = 0 then r ''InternalSubnetIDs''
         else if length (cfg_ExternalSubnetIDs c) = 0 then r ''ExternalSubnetIDs''
         else None)"

text \<open>
  The values that \<open>NewLoadBalancedScheduler\<close> composes. \<open>'h\<close> is a backend client as its
  constructor returns it, \<open>'f\<close> the name generator of the load balancer manager.
\<close>

record 'h ecsProcessManager =
  epm_cluster :: string
  epm_serviceRole :: string
  epm_ecs :: 'h

record ('e, 'f) ELBManager =
  m_InternalSecurityGroupID :: string
  m_ExternalSecurityGroupID :: string
  m_InternalSubnetIDs :: "string list"
  m_ExternalSubnetIDs :: "string list"
  m_elb :: 'e
  m_newName :: 'f

record 'h Route53Nameserver =
  ns_ZoneID :: string
  ns_route53 :: 'h

datatype ('h, 'f) lb_Manager =
    ELB "('h, 'f) ELBManager"
  | WithCNAME "('h, 'f) lb_Manager" "'h Route53Nameserver"
  | WithLogging "('h, 'f) lb_Manager"

datatype ('h, 'f) ProcessManager_value =
    EcsProcessManager "'h ecsProcessManager"
  | LBProcessManager "('h, 'f) ProcessManager_value" "('h, 'f) lb_Manager"

record ('h, 'f) Scheduler =
  s_ProcessManager :: "('h, 'f) ProcessManager_value"
  s_cluster :: string
  s_ecs :: 'h

text \<open>
  The constructors of the backend clients live outside this package. Each is an operation
  on the world \<open>'w\<close> outside the program: whatever constructing a client does, it does
  to \<open>'w\<close>.
\<close>

record ('w, 'aws, 'h, 'f) constructors =
  ecsutil_NewClient :: "'aws \<Rightarrow> 'w \<Rightarrow> 'h \<times> 'w"
  elb_New :: "'aws \<Rightarrow> 'w \<Rightarrow> 'h \<times> 'w"
  lb_NewRoute53Nameserver :: "'aws \<Rightarrow> 'w \<Rightarrow> 'h Route53Nameserver \<times> 'w"
  lb_newName :: 'f

definition NewELBManager ::
  "('w, 'aws, 'h, 'f) constructors \<Rightarrow> 'aws \<Rightarrow> 'w \<Rightarrow> ('h, 'f) ELBManager \<times> 'w" where
  "NewELBManager ext c w =
     (case elb_New ext c w of
        (client, w1) \<Rightarrow>
          (\<lparr>m_InternalSecurityGroupID = [], m_ExternalSecurityGroupID = [],
            m_InternalSubnetIDs = [], m_ExternalSubnetIDs = [],
            m_elb = client, m_newName = lb_newName ext\<rparr>, w1))"

definition NewLoadBalancedScheduler ::
  "('w, 'aws, 'h, 'f) constructors \<Rightarrow> 'aws Config \<Rightarrow> 'w \<Rightarrow> (error + ('h, 'f) Scheduler) \<times> 'w" where
  "NewLoadBalancedScheduler ext config w =
     (case validateLoadBalancedConfig config of
        Some err \<Rightarrow> (Inl err, w)
      | None \<Rightarrow>
          (case ecsutil_NewClient ext (cfg_AWS config) w of
             (c, w1) \<Rightarrow>
               let pm = EcsProcessManager
                     \<lparr>epm_cluster = cfg_Cluster config,
                      epm_serviceRole = cfg_ServiceRole config, epm_ecs = c\<rparr>
               in (case NewELBManager ext (cfg_AWS config) w1 of
                     (elb0, w2) \<Rightarrow>
                       let elb = elb0
                             \<lparr>m_InternalSecurityGroupID := cfg_InternalSecurityGroupID config,
                              m_ExternalSecurityGroupID := cfg_ExternalSecurityGroupID config,
                              m_InternalSubnetIDs := cfg_InternalSubnetIDs config,
                              m_ExternalSubnetIDs := cfg_ExternalSubnetIDs config\<rparr>;
                           lbm = ELB elb
                       in (case lb_NewRoute53Nameserver ext (cfg_AWS config) w2 of
                             (n0, w3) \<Rightarrow>
                               let n = n0\<lparr>ns_ZoneID := cfg_ZoneID config\<rparr>;
                                   lbm1 = WithCNAME lbm n;
                                   lbm2 = WithLogging lbm1;
                                   pm1 = LBProcessManager pm lbm2
                               in (Inr \<lparr>s_ProcessManager = pm1,
                                        s_cluster = cfg_Cluster config, s_ecs = c\<rparr>, w3)))))"

text \<open>
  The required fields as the specification lists them, each with what "missing" means
  for it (the empty string, the empty list), and the first of them that is missing.
\<close>

definition required_fields :: "'aws Config \<Rightarrow> (string \<times> bool) list" where
  "required_fields c =
     [(''Cluster'', cfg_Cluster c = []),
      (''ServiceRole'', cfg_ServiceRole c = []),
      (''ZoneID'', cfg_ZoneID c = []),
      (''InternalSecurityGroupID'', cfg_InternalSecurityGroupID c = []),
      (''ExternalSecurityGroupID'', cfg_ExternalSecurityGroupID c = []),
      (''InternalSubnetIDs'', cfg_InternalSubnetIDs c = []),
      (''ExternalSubnetIDs'', cfg_ExternalSubnetIDs c = [])]"

definition first_missing :: "'aws Config \<Rightarrow> string option" where
  "first_missing c = map_option fst (find snd (required_fields c))"

lemma validateLoadBalancedConfig_first_missing:
  "validateLoadBalancedConfig c =
     map_option (\<lambda>n. ErrorString (n @ '' is required'')) (first_missing c)"
  by (simp add: validateLoadBalancedConfig_def first_missing_def required_fields_def)

text \<open>
  Claim C9. When a required field of the configuration is missing,
  \<open>NewLoadBalancedScheduler\<close> returns the error that names the first missing field and no
  scheduler, and the world is as it was: no client was constructed. When no field is
  missing, validation passes and a scheduler is returned.
\<close>

theorem NewLoadBalancedScheduler_validation:
  "(case first_missing c of
      Some n \<Rightarrow>
        validateLoadBalancedConfig c = Some (ErrorString (n @ '' is required''))
        \<and> NewLoadBalancedScheduler ext c w = (Inl (ErrorString (n @ '' is required'')), w)
    | None \<Rightarrow>
        validateLoadBalancedConfig c = None
        \<and> (\<exists>sched w'. NewLoadBalancedScheduler ext c w = (Inr sched, w')))
   \<and> (first_missing c = None) =
       (cfg_Cluster c \<noteq> [] \<and> cfg_ServiceRole c \<noteq> [] \<and> cfg_ZoneID c \<noteq> []
        \<and> cfg_InternalSecurityGroupID c \<noteq> [] \<and> cfg_ExternalSecurityGroupID c \<noteq> []
        \<and> cfg_InternalSubnetIDs c \<noteq> [] \<and> cfg_ExternalSubnetIDs c \<noteq> [])"
proof -
  have v: "validateLoadBalancedConfig c =
      map_option (\<lambda>n. ErrorString (n @ '' is required'')) (first_missing c)"
    by (rule validateLoadBalancedConfig_first_missing)
  have present: "(first_missing c = None) =
       (cfg_Cluster c \<noteq> [] \<and> cfg_ServiceRole c \<noteq> [] \<and> cfg_ZoneID c \<noteq> []
        \<and> cfg_InternalSecurityGroupID c \<noteq> [] \<and> cfg_ExternalSecurityGroupID c \<noteq> []
        \<and> cfg_InternalSubnetIDs c \<noteq> [] \<and> cfg_ExternalSubnetIDs c \<noteq> [])"
    by (simp add: first_missing_def required_fields_def)
  show ?thesis
  proof (cases "first_missing c")
    case None
    then have "validateLoadBalancedConfig c = None" by (simp add: v)
    then have "\<exists>sched w'. NewLoadBalancedScheduler ext c w = (Inr sched, w')"
      by (simp add: NewLoadBalancedScheduler_def NewELBManager_def Let_def split: prod.split)
    with None v present show ?thesis by simp
  next
    case (Some n)
    then have "validateLoadBalancedConfig c = Some (ErrorString (n @ '' is required''))"
      by (simp add: v)
    then have "NewLoadBalancedScheduler ext c w = (Inl (ErrorString (n @ '' is required'')), w)"
      by (simp add: NewLoadBalancedScheduler_def)
    with Some v present show ?thesis by simp
  qed
qed

text \<open>
  Constructors that count the clients they build, a complete configuration, and the same
  configuration without a zone and without external subnets.
\<close>

definition counting_constructors :: "(nat, unit, nat, unit) constructors" where
  "counting_constructors =
     \<lparr>ecsutil_NewClient = (\<lambda>aws w. (w, Suc w)),
      elb_New = (\<lambda>aws w. (w, Suc w)),
      lb_NewRoute53Nameserver = (\<lambda>aws w. (\<lparr>ns_ZoneID = [], ns_route53 = w\<rparr>, Suc w)),
      lb_newName = ()\<rparr>"

definition complete_config :: "unit Config" where
  "complete_config =
     \<lparr>cfg_Cluster = ''production'', cfg_ServiceRole = ''ecsServiceRole'', cfg_VPC = [],
      cfg_ZoneID = ''Z3DG6IL3SJCGPX'', cfg_InternalSecurityGroupID = ''sg-internal'',
      cfg_ExternalSecurityGroupID = ''sg-external'', cfg_InternalSubnetIDs = [''subnet-a''],
      cfg_ExternalSubnetIDs = [''subnet-b''], cfg_AWS = ()\<rparr>"

theorem NewLoadBalancedScheduler_without_zone:
  "first_missing (complete_config\<lparr>cfg_ZoneID := [], cfg_ExternalSubnetIDs := []\<rparr>) = Some ''ZoneID''
   \<and> NewLoadBalancedScheduler counting_constructors
        (complete_config\<lparr>cfg_ZoneID := [], cfg_ExternalSubnetIDs := []\<rparr>) 0 =
       (Inl (ErrorString ''ZoneID is required''), 0)
   \<and> first_missing complete_config = None
   \<and> validateLoadBalancedConfig complete_config = None
   \<and> (\<exists>sched. NewLoadBalancedScheduler counting_constructors complete_config 0 = (Inr sched, 3))"
proof -
  let ?c = "complete_config\<lparr>cfg_ZoneID := [], cfg_ExternalSubnetIDs := []\<rparr>"
  have m: "first_missing ?c = Some ''ZoneID''"
    by (simp add: first_missing_def required_fields_def complete_config_def)
  have n: "first_missing complete_config = None"
    by (simp add: first_missing_def required_fields_def complete_config_def)
  from NewLoadBalancedScheduler_validation [of ?c counting_constructors 0]
  have a: "NewLoadBalancedScheduler counting_constructors ?c 0 =
       (Inl (ErrorString ''ZoneID is required''), 0)"
    unfolding m by simp
  from NewLoadBalancedScheduler_validation [of complete_config counting_constructors 0]
  have b: "validateLoadBalancedConfig complete_config = None" unfolding n by simp
  have c: "\<exists>sched. NewLoadBalancedScheduler counting_constructors complete_config 0 = (Inr sched, 3)"
    by (simp add: NewLoadBalancedScheduler_def b NewELBManager_def counting_constructors_def
        eval_nat_numeral)
  from m a n b c show ?thesis by (intro conjI)
qed

section \<open>Task definitions\<close>

subsection \<open>The backend's representation\<close>

record KeyValuePair =
  kv_Name :: "string option"
  kv_Value :: "string option"

record PortMapping =
  pmap_HostPort :: "int64 option"
  pmap_ContainerPort :: "int64 option"

record ContainerDefinition =
  cd_Name :: "string option"
  cd_Cpu :: "int64 option"
  cd_Command :: "string option list"
  cd_Image :: "string option"
  cd_Essential :: "bool option"
  cd_Memory :: "int64 option"
  cd_Environment :: "KeyValuePair option list"
  cd_PortMappings :: "PortMapping list"

record RegisterTaskDefinitionInput =
  rtd_Family :: "string option"
  rtd_ContainerDefinitions :: "ContainerDefinition option list"

record TaskDefinition =
  td_ContainerDefinitions :: "ContainerDefinition option list"

subsection \<open>Helpers from outside the package\<close>

text \<open>
  Modelled from the spec: the constant \<open>MB\<close> of package \<open>bytesize\<close>, which is not among
  the sources; the spec calls it "one megabyte" and has memory "stored by the backend in
  megabytes". It is taken as \<open>2 ^ 20\<close> bytes.
\<close>

definition MB :: uint where
  "MB = 1048576"

text \<open>\<open>strings.Join\<close> of the standard library.\<close>

fun strings_Join :: "string list \<Rightarrow> string \<Rightarrow> string" where
  "strings_Join [] sep = []"
| "strings_Join [a] sep = a"
| "strings_Join (a # b # bs) sep = a @ sep @ strings_Join (b # bs) sep"

text \<open>
  Modelled from the spec: \<open>shellwords.Parse\<close> of the library \<open>go-shellwords\<close>, which is not
  among the sources; the spec has the command "parsed from/serialized to a
  shell-word-tokenized string". The model is a shell word tokenizer: blanks outside quotes
  separate the words, a backslash outside single quotes takes the next character
  literally, single and double quotes group and are dropped, and a line that ends inside
  a quote or after a backslash is refused.
\<close>

definition isSpace :: "char \<Rightarrow> bool" where
  "isSpace r = (r = CHR '' '' \<or> r = CHR 0x09 \<or> r = CHR 0x0D \<or> r = CHR 0x0A)"

fun shellwords_loop ::
  "string list \<Rightarrow> string \<Rightarrow> bool \<Rightarrow> bool \<Rightarrow> bool \<Rightarrow> string \<Rightarrow> error + string list" where
  "shellwords_loop args buf escaped doubleQuoted singleQuoted [] =
     (if escaped \<or> singleQuoted \<or> doubleQuoted
      then Inl (ErrorString ''invalid command line string'')
      else Inr (if buf \<noteq> [] then args @ [buf] else args))"
| "shellwords_loop args buf escaped doubleQuoted singleQuoted (r # line) =
     (if escaped then shellwords_loop args (buf @ [r]) False doubleQuoted singleQuoted line
      else if r = CHR 0x5C then
        (if singleQuoted
         then shellwords_loop args (buf @ [r]) False doubleQuoted singleQuoted line
         else shellwords_loop args buf True doubleQuoted singleQuoted line)
      else if isSpace r then
        (if singleQuoted \<or> doubleQuoted
         then shellwords_loop args (buf @ [r]) False doubleQuoted singleQuoted line
         else if buf \<noteq> []
         then shellwords_loop (args @ [buf]) [] False doubleQuoted singleQuoted line
         else shellwords_loop args buf False doubleQuoted singleQuoted line)
      else if r = CHR 0x22 \<and> \<not> singleQuoted
      then shellwords_loop args buf False (\<not> doubleQuoted) singleQuoted line
      else if r = CHR 0x27 \<and> \<not> doubleQuoted
      then shellwords_loop args buf False doubleQuoted (\<not> singleQuoted) line
      else shellwords_loop args (buf @ [r]) False doubleQuoted singleQuoted line)"

definition shellwords_Parse :: "string \<Rightarrow> error + string list" where
  "shellwords_Parse line = shellwords_loop [] [] False False False line"

subsection \<open>From a process to a task definition and back\<close>

text \<open>The entries that \<open>range\<close> yields for a map: each visited key with its value.\<close>

definition range_entries :: "(('k \<rightharpoonup> 'v) \<Rightarrow> 'k list) \<Rightarrow> ('k \<rightharpoonup> 'v) \<Rightarrow> ('k \<times> 'v) list" where
  "range_entries rng m = List.map_filter (\<lambda>k. map_option (Pair k) (m k)) (rng m)"

definition safeString :: "string option \<Rightarrow> string" where
  "safeString s = (case s of None \<Rightarrow> [] | Some v \<Rightarrow> v)"

definition taskDefinitionInput ::
  "((string \<rightharpoonup> string) \<Rightarrow> string list) \<Rightarrow> Process \<Rightarrow> error + RegisterTaskDefinitionInput" where
  "taskDefinitionInput rng p =
     (case shellwords_Parse (p_Command p) of
        Inl err \<Rightarrow> Inl err
      | Inr args \<Rightarrow>
          let command = map Some args;
              environment =
                map (\<lambda>(k, v). Some \<lparr>kv_Name = Some k, kv_Value = Some v\<rparr>)
                  (range_entries rng (p_Env p));
              ports =
                map (\<lambda>m. \<lparr>pmap_HostPort = port_Host m, pmap_ContainerPort = port_Container m\<rparr>)
                  (p_Ports p)
          in Inr \<lparr>rtd_Family = Some (p_Type p),
                  rtd_ContainerDefinitions =
                    [Some \<lparr>cd_Name = Some (p_Type p),
                      cd_Cpu = Some (ucast (p_CPUShares p)),
                      cd_Command = command,
                      cd_Image = Some (p_Image p),
                      cd_Essential = Some True,
                      cd_Memory = Some (ucast (p_MemoryLimit p div MB)),
                      cd_Environment = environment,
                      cd_PortMappings = ports\<rparr>]\<rparr>)"

fun environment_loop ::
  "(string \<rightharpoonup> string) \<Rightarrow> KeyValuePair option list \<Rightarrow> (string \<rightharpoonup> string)" where
  "environment_loop env [] = env"
| "environment_loop env (kvp # kvps) =
     (case kvp of
        None \<Rightarrow> environment_loop env kvps
      | Some kv \<Rightarrow>
          environment_loop (env(safeString (kv_Name kv) \<mapsto> safeString (kv_Value kv))) kvps)"

fun command_loop :: "string list \<Rightarrow> string option list \<Rightarrow> go_panic + string list" where
  "command_loop command [] = Inr command"
| "command_loop command (s # ss) =
     (case s of
        None \<Rightarrow> Inl NilPointerDereference
      | Some v \<Rightarrow> command_loop (command @ [v]) ss)"

definition taskDefinitionToProcess :: "TaskDefinition \<Rightarrow> failure + Process" where
  "taskDefinitionToProcess td =
     (if length (td_ContainerDefinitions td) = 0
      then Inl (Failed (ErrorString ''task definition had no container definitions''))
      else
        (case td_ContainerDefinitions td ! 0 of
           None \<Rightarrow> Inl (Panicked NilPointerDereference)
         | Some container \<Rightarrow>
             (case command_loop [] (cd_Command container) of
                Inl panic \<Rightarrow> Inl (Panicked panic)
              | Inr command \<Rightarrow>
                  let env = environment_loop Map.empty (cd_Environment container)
                  in (case cd_Cpu container of
                        None \<Rightarrow> Inl (Panicked NilPointerDereference)
                      | Some cpu \<Rightarrow>
                          (case cd_Memory container of
                             None \<Rightarrow> Inl (Panicked NilPointerDereference)
                           | Some memory \<Rightarrow>
                               Inr \<lparr>p_Type = safeString (cd_Name container),
                                    p_Command = strings_Join command '' '',
                                    p_Env = env,
                                    p_Image = [],
                                    p_CPUShares = ucast cpu,
                                    p_MemoryLimit = ucast memory * MB,
                                    p_Instances = 0,
                                    p_Ports = [],
                                    p_LoadBalancer = []\<rparr>)))))"



lemma command_loop_words: "command_loop command (map Some words) = Inr (command @ words)"
  by (induction words arbitrary: command) simp_all










subsection \<open>The round trip\<close>

text \<open>
  The task definition that the backend holds once the input is registered: the
  container definitions as they were submitted.
\<close>

definition registered :: "RegisterTaskDefinitionInput \<Rightarrow> TaskDefinition" where
  "registered inp = \<lparr>td_ContainerDefinitions = rtd_ContainerDefinitions inp\<rparr>"

text \<open>A character that the tokenizer copies: no blank, backslash or quote.\<close>

definition plain :: "char \<Rightarrow> bool" where
  "plain r = (\<not> isSpace r \<and> r \<noteq> CHR 0x5C \<and> r \<noteq> CHR 0x22 \<and> r \<noteq> CHR 0x27)"

text \<open>A command of unquoted words, separated by one blank each.\<close>

definition plain_command :: "string \<Rightarrow> bool" where
  "plain_command line =
     (\<exists>ws. list_all (\<lambda>w. w \<noteq> [] \<and> list_all plain w) ws \<and> line = strings_Join ws '' '')"

lemma environment_loop_entries:
  "environment_loop env
     (map (\<lambda>(k, v). Some \<lparr>kv_Name = Some k, kv_Value = Some v\<rparr>)
        (List.map_filter (\<lambda>k. map_option (Pair k) (m k)) ks)) x =
   (if x \<in> set ks \<and> m x \<noteq> None then m x else env x)"
proof (induction ks arbitrary: env)
  case Nil
  then show ?case by (simp add: List.map_filter_simps)
next
  case (Cons k ks)
  let ?es = "map (\<lambda>(k, v). Some \<lparr>kv_Name = Some k, kv_Value = Some v\<rparr>)
        (List.map_filter (\<lambda>k. map_option (Pair k) (m k)) ks)"
  show ?case
  proof (cases "m k")
    case None
    then have "environment_loop env
       (map (\<lambda>(k, v). Some \<lparr>kv_Name = Some k, kv_Value = Some v\<rparr>)
          (List.map_filter (\<lambda>k. map_option (Pair k) (m k)) (k # ks))) x
       = environment_loop env ?es x"
      by (simp add: List.map_filter_simps)
    also have "\<dots> = (if x \<in> set ks \<and> m x \<noteq> None then m x else env x)"
      by (rule Cons.IH)
    finally show ?thesis using None by auto
  next
    case (Some v)
    then have "environment_loop env
       (map (\<lambda>(k, v). Some \<lparr>kv_Name = Some k, kv_Value = Some v\<rparr>)
          (List.map_filter (\<lambda>k. map_option (Pair k) (m k)) (k # ks))) x
       = environment_loop (env(k \<mapsto> v)) ?es x"
      by (simp add: List.map_filter_simps safeString_def)
    also have "\<dots> = (if x \<in> set ks \<and> m x \<noteq> None then m x else (env(k \<mapsto> v)) x)"
      by (rule Cons.IH)
    finally show ?thesis using Some by auto
  qed
qed

lemma environment_round_trip:
  assumes "visits_keys rng m"
  shows "environment_loop Map.empty
     (map (\<lambda>(k, v). Some \<lparr>kv_Name = Some k, kv_Value = Some v\<rparr>) (range_entries rng m)) = m"
proof
  fix x
  have "set (rng m) = dom m" using assms by (simp add: visits_keys_def)
  then show "environment_loop Map.empty
     (map (\<lambda>(k, v). Some \<lparr>kv_Name = Some k, kv_Value = Some v\<rparr>) (range_entries rng m)) x = m x"
    unfolding range_entries_def environment_loop_entries by (auto simp: domIff)
qed

lemma megabytes_truncate:
  fixes x :: uint
  shows "x div MB * MB = x - x mod MB"
    and "(x div MB * MB = x) = (unat x mod 1048576 = 0)"
    and "unat (x div MB * MB) = unat x div 1048576 * 1048576"
proof -
  have e: "x div MB * MB + x mod MB = x" by (rule div_mult_mod_eq)
  then show t: "x div MB * MB = x - x mod MB" by (metis add_diff_cancel_right')
  have "(x div MB * MB = x) = (x mod MB = 0)" using e by (metis add.right_neutral add_left_cancel)
  also have "\<dots> = (unat (x mod MB) = 0)" by (simp add: unat_eq_0)
  also have "\<dots> = (unat x mod 1048576 = 0)" by (simp add: unat_mod MB_def)
  finally show "(x div MB * MB = x) = (unat x mod 1048576 = 0)" .
  have "unat (x div MB) * unat MB \<le> unat x"
    by (simp add: unat_div)
  also have "\<dots> < 2 ^ LENGTH(64)" by (rule unsigned_less)
  finally have "unat (x div MB * MB) = unat (x div MB) * unat MB"
    by (simp add: unat_mult_lem [THEN iffD1])
  then show "unat (x div MB * MB) = unat x div 1048576 * 1048576"
    by (simp add: unat_div MB_def)
qed

lemma shellwords_loop_plain:
  "list_all plain w \<Longrightarrow>
   shellwords_loop args buf False False False (w @ line) =
   shellwords_loop args (buf @ w) False False False line"
  by (induction w arbitrary: buf) (auto simp: plain_def)

lemma shellwords_loop_words:
  "list_all (\<lambda>w. w \<noteq> [] \<and> list_all plain w) ws \<Longrightarrow>
   shellwords_loop args [] False False False (strings_Join ws '' '') = Inr (args @ ws)"
proof (induction ws "'' ''" arbitrary: args rule: strings_Join.induct)
  case 1
  then show ?case by simp
next
  case (2 a)
  then show ?case using shellwords_loop_plain [of a args "[]" "[]"] by simp
next
  case (3 a b bs)
  then show ?case
    using shellwords_loop_plain [of a args "[]" "'' '' @ strings_Join (b # bs) '' ''"]
    by (simp add: isSpace_def)
qed

lemma shellwords_Parse_plain_command:
  assumes "plain_command line" and "shellwords_Parse line = Inr args"
  shows "strings_Join args '' '' = line"
proof -
  from assms(1) obtain ws where ws: "list_all (\<lambda>w. w \<noteq> [] \<and> list_all plain w) ws"
    and line: "line = strings_Join ws '' ''"
    unfolding plain_command_def by blast
  have "shellwords_Parse line = Inr ws"
    using shellwords_loop_words [OF ws, of "[]"] by (simp add: shellwords_Parse_def line)
  with assms(2) show ?thesis by (simp add: line)
qed

text \<open>
  Claim C4, as amended. When \<open>taskDefinitionInput\<close> succeeds, the way back over the
  registered task definition succeeds too. The command comes back as its shell words joined
  by single blanks, which is the command itself when it is made of unquoted words with one
  blank between them. \<open>Env\<close> and \<open>CPUShares\<close> come back equal. \<open>MemoryLimit\<close>
  comes back rounded down to a whole number of megabytes, hence equal exactly when it is a
  multiple of one megabyte.
\<close>

theorem taskDefinition_round_trip:
  assumes "taskDefinitionInput rng p = Inr inp"
    and "visits_keys rng (p_Env p)"
  shows "\<exists>args p'.
           shellwords_Parse (p_Command p) = Inr args
         \<and> taskDefinitionToProcess (registered inp) = Inr p'
         \<and> p_Command p' = strings_Join args '' ''
         \<and> (plain_command (p_Command p) \<longrightarrow> p_Command p' = p_Command p)
         \<and> p_Env p' = p_Env p
         \<and> p_CPUShares p' = p_CPUShares p
         \<and> p_MemoryLimit p' = p_MemoryLimit p - p_MemoryLimit p mod MB
         \<and> unat (p_MemoryLimit p') = unat (p_MemoryLimit p) div unat MB * unat MB
         \<and> (p_MemoryLimit p' = p_MemoryLimit p) = (unat (p_MemoryLimit p) mod unat MB = 0)"
proof -
  from assms(1) obtain args where args: "shellwords_Parse (p_Command p) = Inr args"
    by (auto simp: taskDefinitionInput_def split: sum.splits)
  let ?env = "map (\<lambda>(k, v). Some \<lparr>kv_Name = Some k, kv_Value = Some v\<rparr>)
                (range_entries rng (p_Env p))"
  let ?p' = "\<lparr>p_Type = p_Type p,
            p_Command = strings_Join args '' '',
            p_Env = environment_loop Map.empty ?env,
            p_Image = [],
            p_CPUShares = p_CPUShares p,
            p_MemoryLimit = p_MemoryLimit p div MB * MB,
            p_Instances = 0,
            p_Ports = [],
            p_LoadBalancer = []\<rparr>"
  have inp: "rtd_ContainerDefinitions inp =
      [Some \<lparr>cd_Name = Some (p_Type p), cd_Cpu = Some (p_CPUShares p),
        cd_Command = map Some args,
        cd_Image = Some (p_Image p), cd_Essential = Some True,
        cd_Memory = Some (p_MemoryLimit p div MB), cd_Environment = ?env,
        cd_PortMappings =
          map (\<lambda>m. \<lparr>pmap_HostPort = port_Host m, pmap_ContainerPort = port_Container m\<rparr>)
            (p_Ports p)\<rparr>]"
    using assms(1) args by (auto simp: taskDefinitionInput_def)
  have return: "taskDefinitionToProcess (registered inp) = Inr ?p'"
    by (simp add: taskDefinitionToProcess_def registered_def inp safeString_def
        command_loop_words)
  have env: "environment_loop Map.empty ?env = p_Env p"
    by (rule environment_round_trip [OF assms(2)])
  have cmd: "plain_command (p_Command p) \<longrightarrow> strings_Join args '' '' = p_Command p"
    using shellwords_Parse_plain_command [OF _ args] by blast
  have mb: "unat MB = 1048576" by (simp add: MB_def)
  show ?thesis
    using args return env cmd megabytes_truncate [of "p_MemoryLimit p"]
    by (intro exI [of _ args] exI [of _ ?p']) (simp add: mb)
qed

text \<open>
  A web process with a plain command, one variable in its environment and a memory limit
  of one and a half megabytes: everything but the half megabyte comes back.
\<close>

definition web_process :: Process where
  "web_process =
     \<lparr>p_Type = ''web'', p_Command = ''bundle exec rails'',
      p_Env = [''RAILS_ENV'' \<mapsto> ''production''], p_Image = ''remind101/acme:latest'',
      p_CPUShares = 256, p_MemoryLimit = 1572864, p_Instances = 2, p_Ports = [],
      p_LoadBalancer = []\<rparr>"

text \<open>What \<open>taskDefinitionInput\<close> makes of the web process.\<close>

definition web_input :: RegisterTaskDefinitionInput where
  "web_input =
     \<lparr>rtd_Family = Some ''web'',
      rtd_ContainerDefinitions =
        [Some \<lparr>cd_Name = Some ''web'', cd_Cpu = Some 256,
          cd_Command = [Some ''bundle'', Some ''exec'', Some ''rails''],
          cd_Image = Some ''remind101/acme:latest'', cd_Essential = Some True,
          cd_Memory = Some 1,
          cd_Environment =
            [Some \<lparr>kv_Name = Some ''RAILS_ENV'', kv_Value = Some ''production''\<rparr>],
          cd_PortMappings = []\<rparr>]\<rparr>"

theorem taskDefinition_round_trip_web:
  "taskDefinitionInput (\<lambda>_. [''RAILS_ENV'']) web_process = Inr web_input
   \<and> visits_keys (\<lambda>_. [''RAILS_ENV'']) (p_Env web_process)
   \<and> plain_command (p_Command web_process)
   \<and> (\<exists>p'. taskDefinitionToProcess (registered web_input) = Inr p'
        \<and> p_Command p' = ''bundle exec rails''
        \<and> p_Env p' = [''RAILS_ENV'' \<mapsto> ''production'']
        \<and> p_CPUShares p' = 256
        \<and> p_MemoryLimit web_process = 1572864
        \<and> p_MemoryLimit p' = 1048576)"
proof -
  have h1: "taskDefinitionInput (\<lambda>_. [''RAILS_ENV'']) web_process = Inr web_input"
    by (simp add: taskDefinitionInput_def web_process_def web_input_def shellwords_Parse_def
        isSpace_def range_entries_def List.map_filter_simps MB_def)
  have h2: "visits_keys (\<lambda>_. [''RAILS_ENV'']) (p_Env web_process)"
    by (simp add: visits_keys_def web_process_def)
  have h3: "plain_command (p_Command web_process)"
    unfolding plain_command_def
    by (rule exI [of _ "[''bundle'', ''exec'', ''rails'']"])
       (simp add: web_process_def plain_def isSpace_def)
  have mem: "p_MemoryLimit web_process - p_MemoryLimit web_process mod MB = 1048576"
    by (simp add: web_process_def MB_def)
  from taskDefinition_round_trip [OF h1 h2] h3
  obtain p' where "taskDefinitionToProcess (registered web_input) = Inr p'"
    and "p_Command p' = p_Command web_process"
    and "p_Env p' = p_Env web_process"
    and "p_CPUShares p' = p_CPUShares web_process"
    and "p_MemoryLimit p' = p_MemoryLimit web_process - p_MemoryLimit web_process mod MB"
    by blast
  then have "\<exists>p'. taskDefinitionToProcess (registered web_input) = Inr p'
        \<and> p_Command p' = ''bundle exec rails''
        \<and> p_Env p' = [''RAILS_ENV'' \<mapsto> ''production'']
        \<and> p_CPUShares p' = 256
        \<and> p_MemoryLimit web_process = 1572864
        \<and> p_MemoryLimit p' = 1048576"
    using mem by (auto simp: web_process_def)
  with h1 h2 h3 show ?thesis by blast
qed

text \<open>
  The claim as it was stated has the command come back equal. A command with two blanks
  between its words is converted without error and comes back with one.
\<close>

definition spaced_process :: Process where
  "spaced_process = web_process\<lparr>p_Command := ''a  b''\<rparr>"

definition spaced_input :: RegisterTaskDefinitionInput where
  "spaced_input =
     \<lparr>rtd_Family = Some ''web'',
      rtd_ContainerDefinitions =
        [Some \<lparr>cd_Name = Some ''web'', cd_Cpu = Some 256,
          cd_Command = [Some ''a'', Some ''b''],
          cd_Image = Some ''remind101/acme:latest'', cd_Essential = Some True,
          cd_Memory = Some 1,
          cd_Environment =
            [Some \<lparr>kv_Name = Some ''RAILS_ENV'', kv_Value = Some ''production''\<rparr>],
          cd_PortMappings = []\<rparr>]\<rparr>"

theorem taskDefinition_round_trip_command_differs:
  "p_Command spaced_process = ''a  b''
   \<and> taskDefinitionInput (\<lambda>_. [''RAILS_ENV'']) spaced_process = Inr spaced_input
   \<and> taskDefinitionToProcess (registered spaced_input) =
       Inr \<lparr>p_Type = ''web'', p_Command = ''a b'',
            p_Env = [''RAILS_ENV'' \<mapsto> ''production''], p_Image = [],
            p_CPUShares = 256, p_MemoryLimit = 1048576, p_Instances = 0, p_Ports = [],
            p_LoadBalancer = []\<rparr>
   \<and> ''a b'' \<noteq> p_Command spaced_process"
  by (simp add: taskDefinitionInput_def spaced_process_def spaced_input_def web_process_def
      shellwords_Parse_def isSpace_def range_entries_def List.map_filter_simps MB_def
      taskDefinitionToProcess_def registered_def safeString_def)

section \<open>The process manager on ECS: removing a process\<close>

text \<open>
  The two operations of the ECS client that removal uses. Each returns a response and an
  error; the code below discards the response, so only the error is kept.
\<close>

record UpdateServiceInput =
  usi_Cluster :: "string option"
  usi_DesiredCount :: "int64 option"
  usi_Service :: "string option"
  usi_TaskDefinition :: "string option"

record DeleteServiceInput =
  dsi_Cluster :: "string option"
  dsi_Service :: "string option"

record 's ecsutil_Client =
  UpdateAppService :: "string \<Rightarrow> UpdateServiceInput \<Rightarrow> 's \<Rightarrow> error option \<times> 's"
  DeleteAppService :: "string \<Rightarrow> DeleteServiceInput \<Rightarrow> 's \<Rightarrow> error option \<times> 's"

definition noService :: "error option \<Rightarrow> bool" where
  "noService err =
     (case err of
        Some (AwsError code message) \<Rightarrow>
          if message = ''Service was not ACTIVE.'' then True
          else if message =
            ''Could not find returned type com.amazon.madison.cmb#CMServiceNotActiveException in model''
          then True
          else if message =
            ''Could not find returned type com.amazon.madison.cmb#CMServiceNotFoundException in model''
          then True
          else if message = ''Service not found.'' then True
          else False
      | _ \<Rightarrow> False)"

definition ecsProcessManager_Scale ::
  "'s ecsutil_Client ecsProcessManager \<Rightarrow> string \<Rightarrow> string \<Rightarrow> uint \<Rightarrow> 's \<Rightarrow> error option \<times> 's" where
  "ecsProcessManager_Scale m app process instances s =
     UpdateAppService (epm_ecs m) app
       \<lparr>usi_Cluster = Some (epm_cluster m),
        usi_DesiredCount = Some (ucast instances),
        usi_Service = Some process,
        usi_TaskDefinition = None\<rparr> s"

definition ecsProcessManager_RemoveProcess ::
  "'s ecsutil_Client ecsProcessManager \<Rightarrow> string \<Rightarrow> string \<Rightarrow> 's \<Rightarrow> error option \<times> 's" where
  "ecsProcessManager_RemoveProcess m app process s =
     (case ecsProcessManager_Scale m app process 0 s of
        (err, s1) \<Rightarrow>
          if noService err then (None, s1)
          else if err \<noteq> None then (err, s1)
          else
            (case DeleteAppService (epm_ecs m) app
                    \<lparr>dsi_Cluster = Some (epm_cluster m), dsi_Service = Some process\<rparr> s1 of
               (err2, s2) \<Rightarrow> if noService err2 then (None, s2) else (err2, s2)))"

text \<open>The messages by which the backend is known to say that a service is not there.\<close>

definition not_found_messages :: "string list" where
  "not_found_messages =
     [''Service was not ACTIVE.'',
      ''Could not find returned type com.amazon.madison.cmb#CMServiceNotActiveException in model'',
      ''Could not find returned type com.amazon.madison.cmb#CMServiceNotFoundException in model'',
      ''Service not found.'']"

lemma noService_iff:
  "noService err =
     (\<exists>code message. err = Some (AwsError code message) \<and> message \<in> set not_found_messages)"
  by (auto simp: noService_def not_found_messages_def split: option.splits error.splits)

text \<open>
  Claim C3. \<open>RemoveProcess\<close> first asks the backend to scale the service to zero and then,
  from the state that leaves, to delete it. An error of either step that is an AWS error
  with one of the known not-found messages ends the removal with no error; the deletion is
  not attempted after such an answer to the scaling. Every other error is returned as it
  is.
\<close>

theorem RemoveProcess_not_found_is_success:
  assumes "UpdateAppService (epm_ecs m) app
             \<lparr>usi_Cluster = Some (epm_cluster m), usi_DesiredCount = Some 0,
              usi_Service = Some process, usi_TaskDefinition = None\<rparr> s = (err1, s1)"
    and "DeleteAppService (epm_ecs m) app
             \<lparr>dsi_Cluster = Some (epm_cluster m), dsi_Service = Some process\<rparr> s1 = (err2, s2)"
  shows "(noService err1 \<longrightarrow> ecsProcessManager_RemoveProcess m app process s = (None, s1))
       \<and> (err1 \<noteq> None \<and> \<not> noService err1 \<longrightarrow>
            ecsProcessManager_RemoveProcess m app process s = (err1, s1))
       \<and> (err1 = None \<and> noService err2 \<longrightarrow>
            ecsProcessManager_RemoveProcess m app process s = (None, s2))
       \<and> (err1 = None \<and> \<not> noService err2 \<longrightarrow>
            ecsProcessManager_RemoveProcess m app process s = (err2, s2))
       \<and> (\<forall>err. noService err =
            (\<exists>code message. err = Some (AwsError code message)
               \<and> message \<in> set not_found_messages))"
proof -
  have scale: "ecsProcessManager_Scale m app process 0 s = (err1, s1)"
    using assms(1) by (simp add: ecsProcessManager_Scale_def)
  have none: "\<not> noService None" by (simp add: noService_def)
  show ?thesis
    using assms(2) none
    by (auto simp: ecsProcessManager_RemoveProcess_def scale noService_iff [symmetric])
qed

text \<open>
  Two backends: one that has no such service, and one whose deletion fails for another
  reason.
\<close>

definition absent_service_client :: "nat ecsutil_Client" where
  "absent_service_client =
     \<lparr>UpdateAppService = (\<lambda>app inp s. (Some (AwsError ''ClientException'' ''Service not found.''), Suc s)),
      DeleteAppService = (\<lambda>app inp s. (None, Suc s))\<rparr>"

definition failing_delete_client :: "nat ecsutil_Client" where
  "failing_delete_client =
     \<lparr>UpdateAppService = (\<lambda>app inp s. (None, Suc s)),
      DeleteAppService = (\<lambda>app inp s. (Some (AwsError ''ServerException'' ''try again''), Suc s))\<rparr>"

theorem RemoveProcess_absent_service:
  "ecsProcessManager_RemoveProcess
     \<lparr>epm_cluster = ''cluster'', epm_serviceRole = ''role'', epm_ecs = absent_service_client\<rparr>
     ''acme'' ''clock'' 0 = (None, 1)
   \<and> ecsProcessManager_RemoveProcess
     \<lparr>epm_cluster = ''cluster'', epm_serviceRole = ''role'', epm_ecs = failing_delete_client\<rparr>
     ''acme'' ''clock'' 0 = (Some (AwsError ''ServerException'' ''try again''), 2)"
proof -
  let ?m1 = "\<lparr>epm_cluster = ''cluster'', epm_serviceRole = ''role'',
              epm_ecs = absent_service_client\<rparr>"
  let ?m2 = "\<lparr>epm_cluster = ''cluster'', epm_serviceRole = ''role'',
              epm_ecs = failing_delete_client\<rparr>"
  have a: "ecsProcessManager_RemoveProcess ?m1 ''acme'' ''clock'' 0 = (None, 1)"
    using RemoveProcess_not_found_is_success
      [of ?m1 "''acme''" "''clock''" 0 "Some (AwsError ''ClientException'' ''Service not found.'')"
          1 None 2]
    by (simp add: absent_service_client_def noService_def)
  have b: "ecsProcessManager_RemoveProcess ?m2 ''acme'' ''clock'' 0 =
      (Some (AwsError ''ServerException'' ''try again''), 2)"
    using RemoveProcess_not_found_is_success
      [of ?m2 "''acme''" "''clock''" 0 None 1
          "Some (AwsError ''ServerException'' ''try again'')" 2]
    by (simp add: failing_delete_client_def noService_def)
  from a b show ?thesis by simp
qed

section \<open>The load balancer manager\<close>

subsection \<open>The load balancing backend\<close>

record Listener =
  l_InstancePort :: int64
  l_LoadBalancerPort :: "int64 option"
  l_Protocol :: "string option"
  l_InstanceProtocol :: "string option"
  l_SSLCertificateId :: "string option"

record Tag =
  t_Key :: string
  t_Value :: string

record CreateLoadBalancerInput =
  clb_Listeners :: "Listener list"
  clb_LoadBalancerName :: string
  clb_Scheme :: "string option"
  clb_SecurityGroups :: "string list"
  clb_Subnets :: "string list"
  clb_Tags :: "Tag list"

record CreateLoadBalancerOutput =
  clbo_DNSName :: string

record ConnectionDraining =
  drain_Enabled :: "bool option"
  drain_Timeout :: "int64 option"

record CrossZoneLoadBalancing =
  cross_Enabled :: "bool option"

record LoadBalancerAttributes =
  lba_ConnectionDraining :: "ConnectionDraining option"
  lba_CrossZoneLoadBalancing :: "CrossZoneLoadBalancing option"

record ModifyLoadBalancerAttributesInput =
  mlb_LoadBalancerAttributes :: "LoadBalancerAttributes option"
  mlb_LoadBalancerName :: string

record DescribeLoadBalancersInput =
  dlb_Marker :: "string option"
  dlb_PageSize :: "int64 option"

record ListenerDescription =
  ld_Listener :: Listener

record LoadBalancerDescription =
  lbd_LoadBalancerName :: string
  lbd_DNSName :: string
  lbd_Scheme :: string
  lbd_ListenerDescriptions :: "ListenerDescription list"

record DescribeLoadBalancersOutput =
  dlbo_LoadBalancerDescriptions :: "LoadBalancerDescription list"
  dlbo_NextMarker :: "string option"

record DescribeTagsInput =
  dt_LoadBalancerNames :: "string list"

record TagDescription =
  tgd_LoadBalancerName :: string
  tgd_Tags :: "Tag list"

record DescribeTagsOutput =
  dto_TagDescriptions :: "TagDescription list"

text \<open>
  The client of the load balancing backend. A call returns its response or an error, and
  the state of the backend after the call. The response of
  \<open>ModifyLoadBalancerAttributes\<close> is discarded by the code, so only its error is kept.
\<close>

record 's elb_ELB =
  elb_CreateLoadBalancer ::
    "CreateLoadBalancerInput \<Rightarrow> 's \<Rightarrow> (error + CreateLoadBalancerOutput) \<times> 's"
  elb_ModifyLoadBalancerAttributes ::
    "ModifyLoadBalancerAttributesInput \<Rightarrow> 's \<Rightarrow> error option \<times> 's"
  elb_DescribeLoadBalancers ::
    "DescribeLoadBalancersInput \<Rightarrow> 's \<Rightarrow> (error + DescribeLoadBalancersOutput) \<times> 's"
  elb_DescribeTags ::
    "DescribeTagsInput \<Rightarrow> 's \<Rightarrow> (error + DescribeTagsOutput) \<times> 's"

subsection \<open>The manager's own types\<close>

record CreateLoadBalancerOpts =
  o_InstancePort :: int64
  o_Tags :: "string \<rightharpoonup> string"
  o_External :: bool
  o_SSLCert :: string

record LoadBalancer =
  lb_Name :: string
  lb_DNSName :: string
  lb_External :: bool
  lb_SSLCert :: string
  lb_InstancePort :: int64
  lb_Tags :: "string \<rightharpoonup> string"

definition schemeInternal :: string where
  "schemeInternal = ''internal''"

definition schemeExternal :: string where
  "schemeExternal = ''internet-facing''"

definition defaultConnectionDrainingTimeout :: int64 where
  "defaultConnectionDrainingTimeout = 30"

text \<open>
  A manager in use: its client is the backend's operations on the state \<open>'s\<close>, and its
  name generator draws a fresh name from that state.
\<close>

type_synonym 's manager = "('s elb_ELB, 's \<Rightarrow> string \<times> 's) ELBManager"

subsection \<open>Listeners and tags\<close>

definition elbListeners :: "int64 \<Rightarrow> string \<Rightarrow> Listener list" where
  "elbListeners port certID =
     (let listeners =
            [\<lparr>l_InstancePort = port,
              l_LoadBalancerPort = Some 80,
              l_Protocol = Some ''http'',
              l_InstanceProtocol = Some ''http'',
              l_SSLCertificateId = None\<rparr>]
      in if certID \<noteq> []
         then listeners @
            [\<lparr>l_InstancePort = port,
              l_LoadBalancerPort = Some 443,
              l_Protocol = Some ''https'',
              l_InstanceProtocol = Some ''http'',
              l_SSLCertificateId = Some certID\<rparr>]
         else listeners)"

definition elbTag :: "string \<Rightarrow> string \<Rightarrow> Tag" where
  "elbTag k v = \<lparr>t_Key = k, t_Value = v\<rparr>"

definition elbTags :: "((string \<rightharpoonup> string) \<Rightarrow> string list) \<Rightarrow> (string \<rightharpoonup> string) \<Rightarrow> Tag list" where
  "elbTags rng tags = map (\<lambda>(k, v). elbTag k v) (range_entries rng tags)"

fun mapTags_loop :: "(string \<rightharpoonup> string) \<Rightarrow> Tag list \<Rightarrow> (string \<rightharpoonup> string)" where
  "mapTags_loop tagMap [] = tagMap"
| "mapTags_loop tagMap (t # tags) = mapTags_loop (tagMap(t_Key t \<mapsto> t_Value t)) tags"

definition mapTags :: "Tag list \<Rightarrow> (string \<rightharpoonup> string)" where
  "mapTags tags = mapTags_loop Map.empty tags"

fun containsTag :: "Tag \<Rightarrow> Tag list \<Rightarrow> bool" where
  "containsTag t [] = False"
| "containsTag t (t2 # tags) =
     (if t_Key t = t_Key t2 \<and> t_Value t = t_Value t2 then True else containsTag t tags)"

fun containsTags_loop :: "(string \<times> string) list \<Rightarrow> Tag list \<Rightarrow> bool" where
  "containsTags_loop [] b = True"
| "containsTags_loop ((k, v) # a) b =
     (let t = elbTag k v
      in if \<not> containsTag t b then False else containsTags_loop a b)"

definition containsTags ::
  "((string \<rightharpoonup> string) \<Rightarrow> string list) \<Rightarrow> (string \<rightharpoonup> string) \<Rightarrow> Tag list \<Rightarrow> bool" where
  "containsTags rng a b = containsTags_loop (range_entries rng a) b"

subsection \<open>Creating a load balancer\<close>

definition awsStringSlice :: "string list \<Rightarrow> string list" where
  "awsStringSlice ss = map (\<lambda>s. s) ss"

definition internalSubnets :: "('e, 'f) ELBManager \<Rightarrow> string list" where
  "internalSubnets m = awsStringSlice (m_InternalSubnetIDs m)"

definition externalSubnets :: "('e, 'f) ELBManager \<Rightarrow> string list" where
  "externalSubnets m = awsStringSlice (m_ExternalSubnetIDs m)"

text \<open>The value of the variable \<open>input\<close> of \<open>CreateLoadBalancer\<close>, for the name drawn.\<close>

definition createLoadBalancerInput ::
  "((string \<rightharpoonup> string) \<Rightarrow> string list) \<Rightarrow> ('e, 'f) ELBManager \<Rightarrow> CreateLoadBalancerOpts \<Rightarrow> string
     \<Rightarrow> CreateLoadBalancerInput" where
  "createLoadBalancerInput rng m o' name =
     (let scheme = (if o_External o' then schemeExternal else schemeInternal);
          sg = (if o_External o' then m_ExternalSecurityGroupID m
                else m_InternalSecurityGroupID m);
          subnets = (if o_External o' then externalSubnets m else internalSubnets m)
      in \<lparr>clb_Listeners = elbListeners (o_InstancePort o') (o_SSLCert o'),
          clb_LoadBalancerName = name,
          clb_Scheme = Some scheme,
          clb_SecurityGroups = [sg],
          clb_Subnets = subnets,
          clb_Tags = elbTags rng (o_Tags o')\<rparr>)"

text \<open>The attributes that the second step sets: connection draining and cross-zone balancing.\<close>

definition modifyAttributesInput :: "string \<Rightarrow> ModifyLoadBalancerAttributesInput" where
  "modifyAttributesInput name =
     \<lparr>mlb_LoadBalancerAttributes = Some
        \<lparr>lba_ConnectionDraining = Some
           \<lparr>drain_Enabled = Some True, drain_Timeout = Some defaultConnectionDrainingTimeout\<rparr>,
         lba_CrossZoneLoadBalancing = Some \<lparr>cross_Enabled = Some True\<rparr>\<rparr>,
      mlb_LoadBalancerName = name\<rparr>"

definition ELBManager_CreateLoadBalancer ::
  "((string \<rightharpoonup> string) \<Rightarrow> string list) \<Rightarrow> 's manager \<Rightarrow> CreateLoadBalancerOpts \<Rightarrow> 's
     \<Rightarrow> (error + LoadBalancer) \<times> 's" where
  "ELBManager_CreateLoadBalancer rng m o' s =
     (case m_newName m s of
        (name, s0) \<Rightarrow>
          let input = createLoadBalancerInput rng m o' name
          in (case elb_CreateLoadBalancer (m_elb m) input s0 of
                (Inl err, s1) \<Rightarrow> (Inl err, s1)
              | (Inr out, s1) \<Rightarrow>
                  (case elb_ModifyLoadBalancerAttributes (m_elb m)
                          (modifyAttributesInput (clb_LoadBalancerName input)) s1 of
                     (Some err, s2) \<Rightarrow> (Inl err, s2)
                   | (None, s2) \<Rightarrow>
                       (Inr \<lparr>lb_Name = clb_LoadBalancerName input,
                             lb_DNSName = clbo_DNSName out,
                             lb_External = o_External o',
                             lb_SSLCert = o_SSLCert o',
                             lb_InstancePort = o_InstancePort o',
                             lb_Tags = Map.empty\<rparr>, s2))))"

subsection \<open>Observing the calls to the backend\<close>

text \<open>
  To say which calls reach the backend, and with which inputs, the client is wrapped so
  that every call is appended to a list kept beside the backend's state. The wrapped
  client answers as the client it wraps.
\<close>

datatype elb_call =
    CreateLoadBalancerCall CreateLoadBalancerInput
  | ModifyLoadBalancerAttributesCall ModifyLoadBalancerAttributesInput
  | DescribeLoadBalancersCall DescribeLoadBalancersInput
  | DescribeTagsCall DescribeTagsInput

definition recorded ::
  "'c \<Rightarrow> ('s \<Rightarrow> 'r \<times> 's) \<Rightarrow> 'c list \<times> 's \<Rightarrow> 'r \<times> ('c list \<times> 's)" where
  "recorded c f = (\<lambda>(log, s). case f s of (r, s') \<Rightarrow> (r, (log @ [c], s')))"

definition unrecorded :: "('s \<Rightarrow> 'r \<times> 's) \<Rightarrow> 'c list \<times> 's \<Rightarrow> 'r \<times> ('c list \<times> 's)" where
  "unrecorded f = (\<lambda>(log, s). case f s of (r, s') \<Rightarrow> (r, (log, s')))"

definition recording_ELB :: "'s elb_ELB \<Rightarrow> (elb_call list \<times> 's) elb_ELB" where
  "recording_ELB c =
     \<lparr>elb_CreateLoadBalancer =
        (\<lambda>inp. recorded (CreateLoadBalancerCall inp) (elb_CreateLoadBalancer c inp)),
      elb_ModifyLoadBalancerAttributes =
        (\<lambda>inp. recorded (ModifyLoadBalancerAttributesCall inp)
           (elb_ModifyLoadBalancerAttributes c inp)),
      elb_DescribeLoadBalancers =
        (\<lambda>inp. recorded (DescribeLoadBalancersCall inp) (elb_DescribeLoadBalancers c inp)),
      elb_DescribeTags =
        (\<lambda>inp. recorded (DescribeTagsCall inp) (elb_DescribeTags c inp))\<rparr>"

definition recording_manager :: "'s manager \<Rightarrow> (elb_call list \<times> 's) manager" where
  "recording_manager m =
     \<lparr>m_InternalSecurityGroupID = m_InternalSecurityGroupID m,
      m_ExternalSecurityGroupID = m_ExternalSecurityGroupID m,
      m_InternalSubnetIDs = m_InternalSubnetIDs m,
      m_ExternalSubnetIDs = m_ExternalSubnetIDs m,
      m_elb = recording_ELB (m_elb m),
      m_newName = unrecorded (m_newName m)\<rparr>"

lemma recording_manager_simps:
  "m_elb (recording_manager m) = recording_ELB (m_elb m)"
  "m_newName (recording_manager m) (calls, s) =
     (case m_newName m s of (name, s') \<Rightarrow> (name, (calls, s')))"
  by (simp_all add: recording_manager_def unrecorded_def)

lemma recording_ELB_simps:
  "elb_CreateLoadBalancer (recording_ELB c) inp (calls, s) =
     (case elb_CreateLoadBalancer c inp s of
        (r, s') \<Rightarrow> (r, (calls @ [CreateLoadBalancerCall inp], s')))"
  "elb_ModifyLoadBalancerAttributes (recording_ELB c) minp (calls, s) =
     (case elb_ModifyLoadBalancerAttributes c minp s of
        (r, s') \<Rightarrow> (r, (calls @ [ModifyLoadBalancerAttributesCall minp], s')))"
  "elb_DescribeLoadBalancers (recording_ELB c) dinp (calls, s) =
     (case elb_DescribeLoadBalancers c dinp s of
        (r, s') \<Rightarrow> (r, (calls @ [DescribeLoadBalancersCall dinp], s')))"
  "elb_DescribeTags (recording_ELB c) tinp (calls, s) =
     (case elb_DescribeTags c tinp s of
        (r, s') \<Rightarrow> (r, (calls @ [DescribeTagsCall tinp], s')))"
  by (simp_all add: recording_ELB_def recorded_def)

lemma createLoadBalancerInput_recording:
  "createLoadBalancerInput rng (recording_manager m) o' name =
   createLoadBalancerInput rng m o' name"
  by (simp add: createLoadBalancerInput_def recording_manager_def internalSubnets_def
      externalSubnets_def)

lemma createLoadBalancerInput_name:
  "clb_LoadBalancerName (createLoadBalancerInput rng m o' name) = name"
  by (simp add: createLoadBalancerInput_def)

text \<open>
  Claim C5. The first call of \<open>CreateLoadBalancer\<close> to the backend is the creation, and
  it is the only creation. The listeners of its input are an HTTP listener on port 80
  that forwards to the instance port of the options and, exactly when the certificate of
  the options is not empty, after it an HTTPS listener on port 443 with that certificate
  that forwards to the same instance port; there are no other listeners.
\<close>

theorem CreateLoadBalancer_listeners:
  "\<exists>name res calls s'.
     ELBManager_CreateLoadBalancer rng (recording_manager m) o' ([], s) =
       (res, (CreateLoadBalancerCall (createLoadBalancerInput rng m o' name) # calls, s'))
     \<and> (calls = [] \<or> calls = [ModifyLoadBalancerAttributesCall (modifyAttributesInput name)])
     \<and> clb_Listeners (createLoadBalancerInput rng m o' name) =
         (if o_SSLCert o' = []
          then [\<lparr>l_InstancePort = o_InstancePort o', l_LoadBalancerPort = Some 80,
                  l_Protocol = Some ''http'', l_InstanceProtocol = Some ''http'',
                  l_SSLCertificateId = None\<rparr>]
          else [\<lparr>l_InstancePort = o_InstancePort o', l_LoadBalancerPort = Some 80,
                  l_Protocol = Some ''http'', l_InstanceProtocol = Some ''http'',
                  l_SSLCertificateId = None\<rparr>,
                \<lparr>l_InstancePort = o_InstancePort o', l_LoadBalancerPort = Some 443,
                  l_Protocol = Some ''https'', l_InstanceProtocol = Some ''http'',
                  l_SSLCertificateId = Some (o_SSLCert o')\<rparr>])"
proof -
  obtain name s0 where n: "m_newName m s = (name, s0)" by (cases "m_newName m s")
  let ?inp = "createLoadBalancerInput rng m o' name"
  obtain r1 s1 where c: "elb_CreateLoadBalancer (m_elb m) ?inp s0 = (r1, s1)"
    by (cases "elb_CreateLoadBalancer (m_elb m) ?inp s0")
  obtain r2 s2 where a:
    "elb_ModifyLoadBalancerAttributes (m_elb m) (modifyAttributesInput name) s1 = (r2, s2)"
    by (cases "elb_ModifyLoadBalancerAttributes (m_elb m) (modifyAttributesInput name) s1")
  have l: "clb_Listeners ?inp = elbListeners (o_InstancePort o') (o_SSLCert o')"
    by (simp add: createLoadBalancerInput_def)
  have run: "\<exists>res calls s'.
     ELBManager_CreateLoadBalancer rng (recording_manager m) o' ([], s) =
       (res, (CreateLoadBalancerCall ?inp # calls, s'))
     \<and> (calls = [] \<or> calls = [ModifyLoadBalancerAttributesCall (modifyAttributesInput name)])"
  proof (cases r1)
    case (Inl err)
    then show ?thesis
      using n c
      by (simp add: ELBManager_CreateLoadBalancer_def recording_manager_simps
          recording_ELB_simps createLoadBalancerInput_recording)
  next
    case (Inr out)
    then show ?thesis
      using n c a
      by (cases r2)
         (simp_all add: ELBManager_CreateLoadBalancer_def recording_manager_simps
            recording_ELB_simps createLoadBalancerInput_recording createLoadBalancerInput_name)
  qed
  moreover have "clb_Listeners ?inp =
         (if o_SSLCert o' = []
          then [\<lparr>l_InstancePort = o_InstancePort o', l_LoadBalancerPort = Some 80,
                  l_Protocol = Some ''http'', l_InstanceProtocol = Some ''http'',
                  l_SSLCertificateId = None\<rparr>]
          else [\<lparr>l_InstancePort = o_InstancePort o', l_LoadBalancerPort = Some 80,
                  l_Protocol = Some ''http'', l_InstanceProtocol = Some ''http'',
                  l_SSLCertificateId = None\<rparr>,
                \<lparr>l_InstancePort = o_InstancePort o', l_LoadBalancerPort = Some 443,
                  l_Protocol = Some ''https'', l_InstanceProtocol = Some ''http'',
                  l_SSLCertificateId = Some (o_SSLCert o')\<rparr>])"
    by (simp add: l elbListeners_def)
  ultimately show ?thesis by blast
qed

text \<open>
  Claim C6. When the backend creates the load balancer and then refuses the update of
  its attributes, \<open>CreateLoadBalancer\<close> returns the error of the update and no load
  balancer; the backend is left in the state after both calls, with the load balancer
  created.
\<close>

theorem CreateLoadBalancer_attribute_update_fails:
  assumes "m_newName m s = (name, s0)"
    and "elb_CreateLoadBalancer (m_elb m) (createLoadBalancerInput rng m o' name) s0 = (Inr out, s1)"
    and "elb_ModifyLoadBalancerAttributes (m_elb m) (modifyAttributesInput name) s1 = (Some err, s2)"
  shows "ELBManager_CreateLoadBalancer rng m o' s = (Inl err, s2)"
  using assms by (simp add: ELBManager_CreateLoadBalancer_def createLoadBalancerInput_def)


text \<open>
  A backend that keeps the names of the load balancers it created and refuses every
  update of attributes, and a manager on it.
\<close>

definition orphaning_backend :: "string list elb_ELB" where
  "orphaning_backend =
     \<lparr>elb_CreateLoadBalancer =
        (\<lambda>inp s. (Inr \<lparr>clbo_DNSName = clb_LoadBalancerName inp @ ''.elb.amazonaws.com''\<rparr>,
                   s @ [clb_LoadBalancerName inp])),
      elb_ModifyLoadBalancerAttributes =
        (\<lambda>inp s. (Some (AwsError ''Throttling'' ''Rate exceeded''), s)),
      elb_DescribeLoadBalancers =
        (\<lambda>inp s. (Inr \<lparr>dlbo_LoadBalancerDescriptions = [], dlbo_NextMarker = None\<rparr>, s)),
      elb_DescribeTags = (\<lambda>inp s. (Inr \<lparr>dto_TagDescriptions = []\<rparr>, s))\<rparr>"

definition orphaning_manager :: "string list manager" where
  "orphaning_manager =
     \<lparr>m_InternalSecurityGroupID = ''sg-internal'',
      m_ExternalSecurityGroupID = ''sg-external'',
      m_InternalSubnetIDs = [''subnet-a''],
      m_ExternalSubnetIDs = [''subnet-b''],
      m_elb = orphaning_backend,
      m_newName = (\<lambda>s. (''0f3c9a'', s))\<rparr>"

definition internal_opts :: CreateLoadBalancerOpts where
  "internal_opts =
     \<lparr>o_InstancePort = 9000, o_Tags = Map.empty, o_External = False, o_SSLCert = []\<rparr>"

theorem CreateLoadBalancer_orphan:
  "m_newName orphaning_manager [] = (''0f3c9a'', [])
   \<and> elb_CreateLoadBalancer (m_elb orphaning_manager)
        (createLoadBalancerInput (\<lambda>_. []) orphaning_manager internal_opts ''0f3c9a'') [] =
       (Inr \<lparr>clbo_DNSName = ''0f3c9a.elb.amazonaws.com''\<rparr>, [''0f3c9a''])
   \<and> elb_ModifyLoadBalancerAttributes (m_elb orphaning_manager)
        (modifyAttributesInput ''0f3c9a'') [''0f3c9a''] =
       (Some (AwsError ''Throttling'' ''Rate exceeded''), [''0f3c9a''])
   \<and> ELBManager_CreateLoadBalancer (\<lambda>_. []) orphaning_manager internal_opts [] =
       (Inl (AwsError ''Throttling'' ''Rate exceeded''), [''0f3c9a''])"
proof -
  have h1: "m_newName orphaning_manager [] = (''0f3c9a'', [])"
    by (simp add: orphaning_manager_def)
  have h2: "elb_CreateLoadBalancer (m_elb orphaning_manager)
        (createLoadBalancerInput (\<lambda>_. []) orphaning_manager internal_opts ''0f3c9a'') [] =
       (Inr \<lparr>clbo_DNSName = ''0f3c9a.elb.amazonaws.com''\<rparr>, [''0f3c9a''])"
    by (simp add: orphaning_manager_def orphaning_backend_def createLoadBalancerInput_name)
  have h3: "elb_ModifyLoadBalancerAttributes (m_elb orphaning_manager)
        (modifyAttributesInput ''0f3c9a'') [''0f3c9a''] =
       (Some (AwsError ''Throttling'' ''Rate exceeded''), [''0f3c9a''])"
    by (simp add: orphaning_manager_def orphaning_backend_def)
  from CreateLoadBalancer_attribute_update_fails [OF h1 h2 h3] h1 h2 h3
  show ?thesis by simp
qed

subsection \<open>Listing load balancers\<close>

text \<open>
  \<open>LoadBalancers\<close> returns a list and an error, or panics: the map \<open>descs\<close> answers a
  name that it does not hold with \<open>nil\<close>, which the next line dereferences. Its loop ends
  only when the backend lets it, so the loop is a function into \<open>option\<close>: \<open>None\<close> is
  the run that never returns.
\<close>

fun sslCert_loop :: "string \<Rightarrow> ListenerDescription list \<Rightarrow> string" where
  "sslCert_loop sslCert [] = sslCert"
| "sslCert_loop sslCert (ld # lds) =
     (case l_SSLCertificateId (ld_Listener ld) of
        Some cert \<Rightarrow> sslCert_loop cert lds
      | None \<Rightarrow> sslCert_loop sslCert lds)"

definition newLoadBalancer :: "LoadBalancerDescription \<Rightarrow> TagDescription \<Rightarrow> LoadBalancer" where
  "newLoadBalancer elb d =
     (let instancePort =
            (if length (lbd_ListenerDescriptions elb) > 0
             then l_InstancePort (ld_Listener (lbd_ListenerDescriptions elb ! 0))
             else 0);
          sslCert =
            (if length (lbd_ListenerDescriptions elb) > 0
             then sslCert_loop [] (lbd_ListenerDescriptions elb)
             else [])
      in \<lparr>lb_Name = lbd_LoadBalancerName elb,
          lb_DNSName = lbd_DNSName elb,
          lb_External = (lbd_Scheme elb = schemeExternal),
          lb_SSLCert = sslCert,
          lb_InstancePort = instancePort,
          lb_Tags = mapTags (tgd_Tags d)\<rparr>)"

fun append_matching ::
  "((string \<rightharpoonup> string) \<Rightarrow> string list) \<Rightarrow> (string \<rightharpoonup> string)
     \<Rightarrow> (string \<rightharpoonup> LoadBalancerDescription) \<Rightarrow> LoadBalancer list \<Rightarrow> TagDescription list
     \<Rightarrow> go_panic + LoadBalancer list" where
  "append_matching rng tags descs lbs [] = Inr lbs"
| "append_matching rng tags descs lbs (d # ds) =
     (if containsTags rng tags (tgd_Tags d)
      then (case descs (tgd_LoadBalancerName d) of
              None \<Rightarrow> Inl NilPointerDereference
            | Some elb \<Rightarrow> append_matching rng tags descs (lbs @ [newLoadBalancer elb d]) ds)
      else append_matching rng tags descs lbs ds)"

fun descs_loop ::
  "(string \<rightharpoonup> LoadBalancerDescription) \<Rightarrow> LoadBalancerDescription list
     \<Rightarrow> (string \<rightharpoonup> LoadBalancerDescription)" where
  "descs_loop descs [] = descs"
| "descs_loop descs (d # ds) = descs_loop (descs(lbd_LoadBalancerName d \<mapsto> d)) ds"

partial_function (option) LoadBalancers_loop ::
  "((string \<rightharpoonup> string) \<Rightarrow> string list) \<Rightarrow> 's manager \<Rightarrow> (string \<rightharpoonup> string) \<Rightarrow> string option
     \<Rightarrow> LoadBalancer list \<Rightarrow> 's \<Rightarrow> ((go_panic + LoadBalancer list \<times> error option) \<times> 's) option" where
  "LoadBalancers_loop rng m tags nextMarker lbs s =
     (case elb_DescribeLoadBalancers (m_elb m)
             \<lparr>dlb_Marker = nextMarker, dlb_PageSize = Some 20\<rparr> s of
        (Inl err, s1) \<Rightarrow> Some (Inr ([], Some err), s1)
      | (Inr out, s1) \<Rightarrow>
          if length (dlbo_LoadBalancerDescriptions out) = 0
          then Some (Inr (lbs, None), s1)
          else
            let names = map lbd_LoadBalancerName (dlbo_LoadBalancerDescriptions out);
                descs = descs_loop Map.empty (dlbo_LoadBalancerDescriptions out)
            in (case elb_DescribeTags (m_elb m) \<lparr>dt_LoadBalancerNames = names\<rparr> s1 of
                  (Inl err, s2) \<Rightarrow> Some (Inr (lbs, Some err), s2)
                | (Inr out2, s2) \<Rightarrow>
                    (case append_matching rng tags descs lbs (dto_TagDescriptions out2) of
                       Inl panic \<Rightarrow> Some (Inl panic, s2)
                     | Inr lbs' \<Rightarrow>
                         if dlbo_NextMarker out = None \<or> dlbo_NextMarker out = Some []
                         then Some (Inr (lbs', None), s2)
                         else LoadBalancers_loop rng m tags (dlbo_NextMarker out) lbs' s2)))"

definition ELBManager_LoadBalancers ::
  "((string \<rightharpoonup> string) \<Rightarrow> string list) \<Rightarrow> 's manager \<Rightarrow> (string \<rightharpoonup> string) \<Rightarrow> 's
     \<Rightarrow> ((go_panic + LoadBalancer list \<times> error option) \<times> 's) option" where
  "ELBManager_LoadBalancers rng m tags s = LoadBalancers_loop rng m tags None [] s"


subsection \<open>What a run of \<open>LoadBalancers\<close> meets at the backend\<close>
















subsection \<open>The code against the description\<close>




















subsection \<open>Filtering and pagination\<close>

text \<open>
  Backends to run \<open>LoadBalancers\<close> against. The first has two pages: a public load
  balancer of the app \<open>acme\<close> that has no listeners, and an internal one of another app
  with an HTTP and an HTTPS listener. The second lists both load balancers on one page
  and answers the request for their tags with the tags of the first alone. The third
  lists both on one page and describes their tags in the reverse order. The fourth
  answers the first request with a page that holds no load balancer and a continuation
  marker, and only then serves the internal load balancer.
\<close>

definition web_description :: LoadBalancerDescription where
  "web_description =
     \<lparr>lbd_LoadBalancerName = ''lb-web'', lbd_DNSName = ''lb-web.elb.amazonaws.com'',
      lbd_Scheme = ''internet-facing'', lbd_ListenerDescriptions = []\<rparr>"

definition worker_description :: LoadBalancerDescription where
  "worker_description =
     \<lparr>lbd_LoadBalancerName = ''lb-worker'', lbd_DNSName = ''lb-worker.elb.amazonaws.com'',
      lbd_Scheme = ''internal'',
      lbd_ListenerDescriptions =
        map (\<lambda>l. \<lparr>ld_Listener = l\<rparr>) (elbListeners 9000 ''arn:aws:iam::cert'')\<rparr>"



definition tags_of :: "string \<Rightarrow> TagDescription" where
  "tags_of name =
     \<lparr>tgd_LoadBalancerName = name,
      tgd_Tags = [\<lparr>t_Key = ''App'', t_Value = (if name = ''lb-web'' then ''acme'' else ''other'')\<rparr>]\<rparr>"


definition manager_of :: "'s elb_ELB \<Rightarrow> 's manager" where
  "manager_of c =
     \<lparr>m_InternalSecurityGroupID = ''sg-internal'',
      m_ExternalSecurityGroupID = ''sg-external'',
      m_InternalSubnetIDs = [''subnet-a''],
      m_ExternalSubnetIDs = [''subnet-b''],
      m_elb = c,
      m_newName = (\<lambda>s. (''0f3c9a'', s))\<rparr>"



definition web_lb :: LoadBalancer where
  "web_lb =
     \<lparr>lb_Name = ''lb-web'', lb_DNSName = ''lb-web.elb.amazonaws.com'', lb_External = True,
      lb_SSLCert = [], lb_InstancePort = 0, lb_Tags = [''App'' \<mapsto> ''acme'']\<rparr>"

definition worker_lb :: LoadBalancer where
  "worker_lb =
     \<lparr>lb_Name = ''lb-worker'', lb_DNSName = ''lb-worker.elb.amazonaws.com'',
      lb_External = False, lb_SSLCert = ''arn:aws:iam::cert'', lb_InstancePort = 9000,
      lb_Tags = [''App'' \<mapsto> ''other'']\<rparr>"


definition reversing_backend :: "nat elb_ELB" where
  "reversing_backend =
     \<lparr>elb_CreateLoadBalancer = (\<lambda>inp s. (Inl (AwsError ''AccessDenied'' ''read only''), s)),
      elb_ModifyLoadBalancerAttributes = (\<lambda>inp s. (None, s)),
      elb_DescribeLoadBalancers =
        (\<lambda>inp s. (Inr \<lparr>dlbo_LoadBalancerDescriptions = [web_description, worker_description],
                        dlbo_NextMarker = None\<rparr>, Suc s)),
      elb_DescribeTags =
        (\<lambda>inp s. (Inr \<lparr>dto_TagDescriptions = map tags_of (rev (dt_LoadBalancerNames inp))\<rparr>,
                   Suc s))\<rparr>"








text \<open>
  The load balancers come in the order of the tag answer: the backend that describes the
  tags in the reverse order has them returned in the reverse order.
\<close>

lemma LoadBalancers_reversed_tags:
  "ELBManager_LoadBalancers (\<lambda>_. []) (recording_manager (manager_of reversing_backend))
     Map.empty ([], 0) =
   Some (Inr ([worker_lb, web_lb], None),
         ([DescribeLoadBalancersCall \<lparr>dlb_Marker = None, dlb_PageSize = Some 20\<rparr>,
           DescribeTagsCall \<lparr>dt_LoadBalancerNames = [''lb-web'', ''lb-worker'']\<rparr>], 2))"
  unfolding ELBManager_LoadBalancers_def
  by (subst LoadBalancers_loop.simps)
     (simp add: recording_manager_simps recording_ELB_simps manager_of_def
        reversing_backend_def web_description_def worker_description_def tags_of_def
        containsTags_def range_entries_def List.map_filter_simps newLoadBalancer_def
        schemeExternal_def mapTags_def web_lb_def worker_lb_def elbListeners_def
        eval_nat_numeral)







end
